theory Spec2Isabelle
  imports Complex_Main "HOL-Library.Char_ord" "HOL-Library.List_Lexorder"
begin

section \<open>Values of the Python program\<close>

text \<open>
  The two source files are \<^verbatim>\<open>webapi/main.py\<close> (the alert history, the cursor into
  the event log, the capture-file lifecycle) and \<^verbatim>\<open>src/snids.py\<close> (the blacklist).

  A Python float as JSON text gives it: a number (\<open>Num 0\<close> is \<^verbatim>\<open>0.0\<close>), the
  negative zero \<^verbatim>\<open>-0.0\<close>, which compares equal to zero and is printed
  differently, the two infinities and NaN.

  Text (a Python \<^verbatim>\<open>str\<close>) is held as the UTF-8 bytes of its characters: a
  character below 128 is one byte, the line feed and the carriage return are the bytes
  10 and 13, and no other character contains them.
\<close>

datatype py_float = Num real | NegZero | PosInf | NegInf | NaN

text \<open>
  A value produced by \<^verbatim>\<open>json.loads\<close>/\<^verbatim>\<open>json.load\<close>. A Python dict keeps its
  keys in insertion order, so an object is an association list; lookups take the
  first binding of a key.
\<close>

datatype json =
    JNull
  | JBool bool
  | JInt int
  | JFloat py_float
  | JStr string
  | JArr "json list"
  | JObj "(string \<times> json) list"

type_synonym dict = "(string \<times> json) list"

datatype py_error =
    TypeError | AttributeError | ValueError | KeyError | OSError | OverflowError
  | UnicodeDecodeError

text \<open>\<^verbatim>\<open>d.get(k, default)\<close>\<close>

definition dict_get :: "dict \<Rightarrow> string \<Rightarrow> json \<Rightarrow> json" where
  "dict_get d k dflt = (case map_of d k of None \<Rightarrow> dflt | Some v \<Rightarrow> v)"

text \<open>\<^verbatim>\<open>d[k] = v\<close>: an existing key keeps its place, a new key goes last.\<close>

fun dict_set :: "dict \<Rightarrow> string \<Rightarrow> json \<Rightarrow> dict" where
  "dict_set [] k v = [(k, v)]"
| "dict_set ((k', v') # d) k v = (if k' = k then (k, v) # d else (k', v') # dict_set d k v)"

text \<open>\<^verbatim>\<open>d[k]\<close>, which raises KeyError on a missing key.\<close>

definition dict_item :: "dict \<Rightarrow> string \<Rightarrow> py_error + json" where
  "dict_item d k = (case map_of d k of None \<Rightarrow> Inl KeyError | Some v \<Rightarrow> Inr v)"

text \<open>Truth value of a Python object, as \<^verbatim>\<open>if obj.get("alert")\<close> tests it.\<close>

fun truthy :: "json \<Rightarrow> bool" where
  "truthy JNull = False"
| "truthy (JBool b) = b"
| "truthy (JInt n) = (n \<noteq> 0)"
| "truthy (JFloat x) = (x \<noteq> Num 0 \<and> x \<noteq> NegZero)"
| "truthy (JStr s) = (s \<noteq> [])"
| "truthy (JArr xs) = (xs \<noteq> [])"
| "truthy (JObj d) = (d \<noteq> [])"

text \<open>
  \<^verbatim>\<open>str.strip()\<close> removes the whitespace characters at both ends. Python counts as
  whitespace the codes 9 to 13 and 28 to 32 (one byte), U+0085 and U+00A0 (two bytes,
  the first \<^verbatim>\<open>C2\<close>), and U+1680, U+2000 to U+200A, U+2028, U+2029, U+202F, U+205F
  and U+3000 (three bytes).
\<close>

definition is_space :: "char \<Rightarrow> bool" where
  "is_space c = (let n = of_char c :: nat in (9 \<le> n \<and> n \<le> 13) \<or> (28 \<le> n \<and> n \<le> 32))"

definition is_space2 :: "char \<Rightarrow> char \<Rightarrow> bool" where
  "is_space2 a b = (a = CHR 0xC2 \<and> (b = CHR 0x85 \<or> b = CHR 0xA0))"

definition is_space3 :: "char \<Rightarrow> char \<Rightarrow> char \<Rightarrow> bool" where
  "is_space3 a b c =
     ((a = CHR 0xE1 \<and> b = CHR 0x9A \<and> c = CHR 0x80) \<or>
      (a = CHR 0xE2 \<and> b = CHR 0x80 \<and>
         (let n = of_char c :: nat
          in (128 \<le> n \<and> n \<le> 138) \<or> n = 168 \<or> n = 169 \<or> n = 175)) \<or>
      (a = CHR 0xE2 \<and> b = CHR 0x81 \<and> c = CHR 0x9F) \<or>
      (a = CHR 0xE3 \<and> b = CHR 0x80 \<and> c = CHR 0x80))"

text \<open>\<^verbatim>\<open>str.lstrip()\<close>\<close>

fun lstrip :: "string \<Rightarrow> string" where
  "lstrip (a # b # c # s) =
     (if is_space a then lstrip (b # c # s)
      else if is_space2 a b then lstrip (c # s)
      else if is_space3 a b c then lstrip s
      else a # b # c # s)"
| "lstrip [a, b] =
     (if is_space a then lstrip [b] else if is_space2 a b then [] else [a, b])"
| "lstrip [a] = (if is_space a then [] else [a])"
| "lstrip [] = []"

text \<open>\<^verbatim>\<open>str.rstrip()\<close> on the reversed text: the last byte comes first.\<close>

fun rstrip_rev :: "string \<Rightarrow> string" where
  "rstrip_rev (c # b # a # s) =
     (if is_space c then rstrip_rev (b # a # s)
      else if is_space2 b c then rstrip_rev (a # s)
      else if is_space3 a b c then rstrip_rev s
      else c # b # a # s)"
| "rstrip_rev [c, b] =
     (if is_space c then rstrip_rev [b] else if is_space2 b c then [] else [c, b])"
| "rstrip_rev [c] = (if is_space c then [] else [c])"
| "rstrip_rev [] = []"

definition strip :: "string \<Rightarrow> string" where
  "strip s = rev (rstrip_rev (rev (lstrip s)))"

text \<open>Decimal text of a natural number, as an f-string prints an int.\<close>

fun show_nat :: "nat \<Rightarrow> string" where
  "show_nat n =
     (if n < 10 then [char_of (48 + n)]
      else show_nat (n div 10) @ [char_of (48 + n mod 10)])"

declare show_nat.simps [simp del]

section \<open>What the program takes from its libraries and its environment\<close>

text \<open>
  The functions of the standard library that the program calls are parameters of the
  model: the JSON parser (\<open>None\<close> when \<^verbatim>\<open>json.loads\<close> raises),
  \<^verbatim>\<open>json.dumps(..., sort_keys=True)\<close>, the MD5 digest in hexadecimal, and the two
  sources of nondeterminism, \<^verbatim>\<open>random.randint(0, 999999)\<close> and
  \<^verbatim>\<open>datetime.now().isoformat()\<close>, indexed by the number of the line being
  processed.

  The text layer of \<^verbatim>\<open>open(..., 'r')\<close> is a parameter as well. \<open>decode\<close> is
  the codec of the locale on the bytes from the seek position to the end of the file:
  the text they decode to, or \<open>None\<close> when the codec raises UnicodeDecodeError. \<open>max_offset\<close> is the largest
  position the file system takes as a byte offset. A larger value makes the seek
  raise, or is read as a cookie that packs a start position with decoder state;
  \<open>seek_cookie\<close> gives what seeking to such a value and reading on gives: the
  exception, or the text read up to the end of the file and what \<^verbatim>\<open>f.tell()\<close>
  returns after it.
\<close>

record env =
  json_loads :: "string \<Rightarrow> json option"
  json_dumps_sorted :: "json \<Rightarrow> string"
  md5_hexdigest :: "string \<Rightarrow> string"
  randint :: "nat \<Rightarrow> nat"
  now_isoformat :: "nat \<Rightarrow> string"
  decode :: "string \<Rightarrow> string option"
  max_offset :: int
  seek_cookie :: "nat \<Rightarrow> string \<Rightarrow> py_error + string \<times> nat"

section \<open>Fingerprints\<close>

text \<open>
  \<^verbatim>\<open>generate_alert_fingerprint\<close>. The body is inside \<^verbatim>\<open>try\<close>: when
  \<^verbatim>\<open>alert_obj\<close> or its \<^verbatim>\<open>alert\<close> member is not a dict, \<^verbatim>\<open>.get\<close> raises
  AttributeError and the fallback \<^verbatim>\<open>random_<n>\<close> is returned.
\<close>

definition fingerprint_data :: "dict \<Rightarrow> dict \<Rightarrow> json" where
  "fingerprint_data alert_obj alert = JObj
     [(''timestamp'', dict_get alert_obj ''timestamp'' (JStr '''')),
      (''signature'', dict_get alert ''signature'' (JStr '''')),
      (''signature_id'', dict_get alert ''signature_id'' (JStr '''')),
      (''severity'', dict_get alert ''severity'' (JStr '''')),
      (''src_ip'', dict_get alert_obj ''src_ip'' (JStr '''')),
      (''dest_ip'', dict_get alert_obj ''dest_ip'' (JStr '''')),
      (''proto'', dict_get alert_obj ''proto'' (JStr ''''))]"

definition generate_alert_fingerprint :: "env \<Rightarrow> nat \<Rightarrow> json \<Rightarrow> string" where
  "generate_alert_fingerprint e i alert_obj =
     (case alert_obj of
        JObj obj \<Rightarrow>
          (case dict_get obj ''alert'' (JObj []) of
             JObj alert \<Rightarrow> md5_hexdigest e (json_dumps_sorted e (fingerprint_data obj alert))
           | _ \<Rightarrow> ''random_'' @ show_nat (randint e i))
      | _ \<Rightarrow> ''random_'' @ show_nat (randint e i))"


section \<open>Files of the web API\<close>

text \<open>
  A file as the program meets it: absent (\<^verbatim>\<open>exists()\<close> is false), present but
  failing to open or to parse (the call raises), or holding a value. The JSON files
  hold the value that \<^verbatim>\<open>json.load\<close> returns; serialisation is not modelled.
  A write either succeeds and replaces the content, or fails at \<^verbatim>\<open>open\<close> and leaves
  the file as it was (the program swallows the exception).
\<close>

datatype 'a disk_file = Missing | Unreadable | Holds 'a

text \<open>The successful writes to the two persisted files, in the order they happen.\<close>

datatype write_event = CursorWritten nat | HistoryWritten "json list"

text \<open>
  \<^verbatim>\<open>EVE_PATH\<close> (its bytes), \<^verbatim>\<open>LAST_PROCESSED_FILE\<close>,
  \<^verbatim>\<open>ALERTS_DB_PATH\<close>, whether opening each of the latter two for writing succeeds,
  and the writes made so far.
\<close>

record world =
  eve_log :: "string disk_file"
  last_processed :: "json disk_file"
  alerts_db :: "json disk_file"
  last_processed_writable :: bool
  alerts_db_writable :: bool
  written :: "write_event list"

text \<open>\<^verbatim>\<open>get_last_processed_position\<close>: every exception gives 0.\<close>

definition get_last_processed_position :: "world \<Rightarrow> json" where
  "get_last_processed_position w =
     (case last_processed w of
        Missing \<Rightarrow> JInt 0
      | Unreadable \<Rightarrow> JInt 0
      | Holds data \<Rightarrow>
          (case data of JObj d \<Rightarrow> dict_get d ''position'' (JInt 0) | _ \<Rightarrow> JInt 0))"

text \<open>\<^verbatim>\<open>set_last_processed_position\<close>: a failure to open the file is swallowed.\<close>

definition set_last_processed_position :: "nat \<Rightarrow> world \<Rightarrow> world" where
  "set_last_processed_position position w =
     (if last_processed_writable w
      then w\<lparr>last_processed := Holds (JObj [(''position'', JInt (int position))]),
             written := written w @ [CursorWritten position]\<rparr>
      else w)"

text \<open>\<^verbatim>\<open>load_alert_history\<close>\<close>

definition load_alert_history :: "world \<Rightarrow> json" where
  "load_alert_history w =
     (case alerts_db w of Missing \<Rightarrow> JArr [] | Unreadable \<Rightarrow> JArr [] | Holds j \<Rightarrow> j)"

text \<open>\<^verbatim>\<open>save_alert_history\<close>\<close>

definition save_alert_history :: "json list \<Rightarrow> world \<Rightarrow> world" where
  "save_alert_history alerts w =
     (if alerts_db_writable w
      then w\<lparr>alerts_db := Holds (JArr alerts), written := written w @ [HistoryWritten alerts]\<rparr>
      else w)"

section \<open>Tailing the event log\<close>

text \<open>
  The argument of \<^verbatim>\<open>f.seek(last_pos)\<close> on a text file, as a number: a negative
  number raises ValueError, a value that is not a number raises TypeError, a bool or
  a float is converted to int (which raises for NaN and for infinity).
\<close>

fun seek_offset :: "json \<Rightarrow> py_error + nat" where
  "seek_offset (JInt n) = (if n < 0 then Inl ValueError else Inr (nat n))"
| "seek_offset (JBool b) = Inr (if b then 1 else 0)"
| "seek_offset (JFloat (Num x)) = (if x < 0 then Inl ValueError else Inr (nat \<lfloor>x\<rfloor>))"
| "seek_offset (JFloat NegZero) = Inr 0"
| "seek_offset (JFloat PosInf) = Inl OverflowError"
| "seek_offset (JFloat NegInf) = Inl ValueError"
| "seek_offset (JFloat NaN) = Inl ValueError"
| "seek_offset JNull = Inl TypeError"
| "seek_offset (JStr s) = Inl TypeError"
| "seek_offset (JArr xs) = Inl TypeError"
| "seek_offset (JObj d) = Inl TypeError"

text \<open>
  \<^verbatim>\<open>for line in f\<close> in text mode with universal newlines: a line ends at LF, at CR
  LF or at CR, and the terminator is handed over as LF. The first argument is the
  current line, reversed.
\<close>

fun file_lines :: "string \<Rightarrow> string \<Rightarrow> string list" where
  "file_lines acc [] = (if acc = [] then [] else [rev acc])"
| "file_lines acc [c] =
     (if c = CHR 0x0A \<or> c = CHR 0x0D then [rev (CHR 0x0A # acc)] else [rev (c # acc)])"
| "file_lines acc (c # c' # cs) =
     (if c = CHR 0x0A then rev (CHR 0x0A # acc) # file_lines [] (c' # cs)
      else if c = CHR 0x0D then
        (if c' = CHR 0x0A then rev (CHR 0x0A # acc) # file_lines [] cs
         else rev (CHR 0x0A # acc) # file_lines [] (c' # cs))
      else file_lines (c # acc) (c' # cs))"

text \<open>
  The two assignments \<^verbatim>\<open>obj['stored_at'] = ...\<close> and
  \<^verbatim>\<open>obj['_fingerprint'] = generate_alert_fingerprint(obj)\<close>.
\<close>

definition stamp_alert :: "env \<Rightarrow> nat \<Rightarrow> dict \<Rightarrow> dict" where
  "stamp_alert e i obj =
     (let obj1 = dict_set obj ''stored_at'' (JStr (now_isoformat e i))
      in dict_set obj1 ''_fingerprint'' (JStr (generate_alert_fingerprint e i (JObj obj1))))"

text \<open>
  The loop over the lines; \<open>i\<close> numbers the line. A line that does not parse, is not
  an object, or has no truthy \<^verbatim>\<open>alert\<close> member is passed over.
\<close>

fun read_alerts :: "env \<Rightarrow> nat \<Rightarrow> string list \<Rightarrow> dict list" where
  "read_alerts e i [] = []"
| "read_alerts e i (line # rest) =
     (case json_loads e (strip line) of
        None \<Rightarrow> read_alerts e (Suc i) rest
      | Some j \<Rightarrow>
          (case j of
             JObj obj \<Rightarrow>
               (if truthy (dict_get obj ''alert'' JNull)
                then stamp_alert e i obj # read_alerts e (Suc i) rest
                else read_alerts e (Suc i) rest)
           | _ \<Rightarrow> read_alerts e (Suc i) rest))"

text \<open>
  The offset \<^verbatim>\<open>f.tell()\<close> gives after the loop, for a seek to a byte offset: the
  end of the file, or the seek position when it lies past the end.
\<close>

definition tell_at_end :: "nat \<Rightarrow> string \<Rightarrow> nat" where
  "tell_at_end last_pos bytes = max last_pos (length bytes)"

text \<open>
  \<^verbatim>\<open>f.seek(last_pos)\<close>, the lines that \<^verbatim>\<open>for line in f\<close> hands over, and
  \<^verbatim>\<open>f.tell()\<close> after the loop; or the exception that the seek or the iteration
  raises. The decoder raises inside the iteration, outside the \<^verbatim>\<open>try\<close> of the loop
  body.
\<close>

definition read_from_cursor :: "env \<Rightarrow> json \<Rightarrow> string \<Rightarrow> py_error + string list \<times> nat" where
  "read_from_cursor e last_pos bytes =
     (case seek_offset last_pos of
        Inl err \<Rightarrow> Inl err
      | Inr p \<Rightarrow>
          (if int p \<le> max_offset e then
             (case decode e (drop p bytes) of
                None \<Rightarrow> Inl UnicodeDecodeError
              | Some text \<Rightarrow> Inr (file_lines [] text, tell_at_end p bytes))
           else
             (case seek_cookie e p bytes of
                Inl err \<Rightarrow> Inl err
              | Inr (text, pos) \<Rightarrow> Inr (file_lines [] text, pos))))"

text \<open>The lines of a log that decodes to itself, read from a byte offset.\<close>

definition lines_from :: "nat \<Rightarrow> string \<Rightarrow> string list" where
  "lines_from last_pos bytes = file_lines [] (drop last_pos bytes)"

section \<open>Storing a batch\<close>

text \<open>\<^verbatim>\<open>'_fingerprint' in alert\<close> for an element of the loaded history.\<close>

fun is_infix :: "string \<Rightarrow> string \<Rightarrow> bool" where
  "is_infix p [] = (p = [])"
| "is_infix p (c # cs) = (take (length p) (c # cs) = p \<or> is_infix p cs)"

fun has_fingerprint :: "json \<Rightarrow> py_error + bool" where
  "has_fingerprint (JObj d) = Inr (map_of d ''_fingerprint'' \<noteq> None)"
| "has_fingerprint (JStr s) = Inr (is_infix ''_fingerprint'' s)"
| "has_fingerprint (JArr xs) = Inr (JStr ''_fingerprint'' \<in> set xs)"
| "has_fingerprint JNull = Inl TypeError"
| "has_fingerprint (JBool b) = Inl TypeError"
| "has_fingerprint (JInt n) = Inl TypeError"
| "has_fingerprint (JFloat x) = Inl TypeError"

text \<open>\<^verbatim>\<open>alert['_fingerprint']\<close>: a str or a list cannot be indexed by a str.\<close>

fun fingerprint_item :: "json \<Rightarrow> py_error + json" where
  "fingerprint_item (JObj d) = dict_item d ''_fingerprint''"
| "fingerprint_item j = Inl TypeError"

text \<open>A list or a dict cannot be a member of a set.\<close>

fun hashable :: "json \<Rightarrow> bool" where
  "hashable (JArr xs) = False"
| "hashable (JObj d) = False"
| "hashable j = True"

text \<open>The loop that builds \<^verbatim>\<open>existing_fingerprints\<close> from the loaded history.\<close>

fun existing_fingerprints :: "json list \<Rightarrow> json set \<Rightarrow> py_error + json set" where
  "existing_fingerprints [] seen = Inr seen"
| "existing_fingerprints (alert # rest) seen =
     (case has_fingerprint alert of
        Inl err \<Rightarrow> Inl err
      | Inr present \<Rightarrow>
          (if present then
             (case fingerprint_item alert of
                Inl err \<Rightarrow> Inl err
              | Inr f \<Rightarrow>
                  (if hashable f then existing_fingerprints rest (insert f seen)
                   else Inl TypeError))
           else existing_fingerprints rest seen))"

text \<open>The loop that filters the new alerts into \<^verbatim>\<open>unique_new_alerts\<close>.\<close>

fun filter_duplicates :: "dict list \<Rightarrow> json set \<Rightarrow> dict list \<Rightarrow> py_error + dict list" where
  "filter_duplicates [] seen uniq = Inr uniq"
| "filter_duplicates (alert # rest) seen uniq =
     (case dict_item alert ''_fingerprint'' of
        Inl err \<Rightarrow> Inl err
      | Inr f \<Rightarrow>
          (if \<not> hashable f then Inl TypeError
           else if f \<notin> seen then filter_duplicates rest (insert f seen) (uniq @ [alert])
           else filter_duplicates rest seen uniq))"

text \<open>\<^verbatim>\<open>history[-10000:]\<close> when the list is longer than 10000.\<close>

definition keep_last :: "json list \<Rightarrow> json list" where
  "keep_last history =
     (if length history > 10000 then drop (length history - 10000) history else history)"

text \<open>
  The block under \<^verbatim>\<open>if new_alerts:\<close>. A loaded history that is not a list makes
  the block raise before anything is saved (iterating or testing membership raises
  TypeError, or the two loops run without effect and \<^verbatim>\<open>history.extend\<close> raises
  AttributeError); the outer \<^verbatim>\<open>except\<close> then returns 0.
\<close>

definition store_batch :: "dict list \<Rightarrow> world \<Rightarrow> nat \<times> world" where
  "store_batch new_alerts w =
     (if new_alerts = [] then (0, w)
      else
        (case load_alert_history w of
           JArr history \<Rightarrow>
             (case existing_fingerprints history {} of
                Inl err \<Rightarrow> (0, w)
              | Inr existing \<Rightarrow>
                  (case filter_duplicates new_alerts existing [] of
                     Inl err \<Rightarrow> (0, w)
                   | Inr unique_new_alerts \<Rightarrow>
                       (if unique_new_alerts = [] then (0, w)
                        else (length unique_new_alerts,
                              save_alert_history
                                (keep_last (history @ map JObj unique_new_alerts)) w))))
         | _ \<Rightarrow> (0, w)))"

text \<open>
  \<^verbatim>\<open>store_new_alerts\<close>: the count returned and the world left behind. An
  exception of the seek or of the iteration reaches the outer \<^verbatim>\<open>except\<close> before
  anything is written. The cursor is saved inside the \<^verbatim>\<open>with\<close> block, before the
  batch is looked at.
\<close>

definition store_new_alerts :: "env \<Rightarrow> world \<Rightarrow> nat \<times> world" where
  "store_new_alerts e w =
     (case eve_log w of
        Missing \<Rightarrow> (0, w)
      | Unreadable \<Rightarrow> (0, w)
      | Holds bytes \<Rightarrow>
          (case read_from_cursor e (get_last_processed_position w) bytes of
             Inl err \<Rightarrow> (0, w)
           | Inr (lines, current_pos) \<Rightarrow>
               store_batch (read_alerts e 0 lines)
                 (set_last_processed_position current_pos w)))"

section \<open>Capture files\<close>

text \<open>
  A directory entry as \<^verbatim>\<open>list_csv_files\<close>, \<^verbatim>\<open>cleanup_old_csvs\<close> and
  \<^verbatim>\<open>api_save_csv\<close> see it: its modification time (\<^verbatim>\<open>st_mtime\<close>, seconds; the
  rounding of floating-point arithmetic is not modelled), and whether
  \<^verbatim>\<open>p.stat()\<close> and \<^verbatim>\<open>p.unlink()\<close> raise on it. A directory lists its entries
  by name, in the order the operating system hands them out; \<open>None\<close> is a
  directory that does not exist.
\<close>

record dir_entry =
  st_mtime :: real
  stat_raises :: bool
  unlink_raises :: bool

type_synonym directory = "(string \<times> dir_entry) list"

record storage =
  csv_dir :: "directory option"
  saved_dir :: "directory option"












text \<open>
  \<^verbatim>\<open>api_save_csv\<close>: the HTTP error raised, or the response returned, and the
  storage left behind. \<open>copy_ok\<close> tells whether \<^verbatim>\<open>shutil.copy2\<close> succeeds; the copy
  keeps the modification time.
\<close>

datatype http_error = HTTPException nat string

record save_response =
  message :: string
  resp_name :: string
  resp_saved :: bool

definition path_exists :: "directory option \<Rightarrow> string \<Rightarrow> bool" where
  "path_exists dir name = (case dir of None \<Rightarrow> False | Some d \<Rightarrow> map_of d name \<noteq> None)"

definition api_save_csv ::
    "bool \<Rightarrow> string \<Rightarrow> storage \<Rightarrow> (http_error + save_response) \<times> storage" where
  "api_save_csv copy_ok name st =
     (if \<not> path_exists (csv_dir st) name then (Inl (HTTPException 404 ''File not found''), st)
      else if path_exists (saved_dir st) name then
        (Inr \<lparr>message = ''File already saved'', resp_name = name, resp_saved = True\<rparr>, st)
      else
        (case (csv_dir st, saved_dir st) of
           (Some d, Some sd) \<Rightarrow>
             (case map_of d name of
                Some en \<Rightarrow>
                  (if copy_ok then
                     (Inr \<lparr>message = ''File saved successfully'', resp_name = name,
                           resp_saved = True\<rparr>,
                      st\<lparr>saved_dir := Some (sd @ [(name, en)])\<rparr>)
                   else (Inl (HTTPException 500 ''Failed to save file''), st))
              | None \<Rightarrow> (Inl (HTTPException 500 ''Failed to save file''), st))
         | _ \<Rightarrow> (Inl (HTTPException 500 ''Failed to save file''), st)))"

section \<open>The blacklist\<close>

text \<open>
  The state \<^verbatim>\<open>add_ip_to_blacklist\<close> works on: the set \<^verbatim>\<open>blacklisted_ips\<close>, the
  text of \<^verbatim>\<open>BLACKLIST_FILE\<close>, the commands handed to \<^verbatim>\<open>pexpect.run\<close> and the lines
  printed. The calls are taken one after the other, as the lock orders them.
\<close>

record blacklist_state =
  blacklisted_ips :: "string set"
  blacklist_file :: string
  reload_runs :: "string list"
  printed :: "string list"

text \<open>How a call into the operating system ends: normally, or with an exception.\<close>

datatype outcome = Done | Raises string

text \<open>
  \<^verbatim>\<open>add_ip_to_blacklist\<close>; \<open>append_outcome\<close> is how opening and writing the file
  ends, \<open>reload_outcome\<close> how \<^verbatim>\<open>pexpect.run\<close> ends.
\<close>

definition add_ip_to_blacklist ::
    "outcome \<Rightarrow> outcome \<Rightarrow> string \<Rightarrow> blacklist_state \<Rightarrow> blacklist_state" where
  "add_ip_to_blacklist append_outcome reload_outcome ip s =
     (if ip \<in> blacklisted_ips s
      then s\<lparr>printed := printed s @ [''[BLACKLIST] '' @ ip @ '' already blacklisted.'']\<rparr>
      else
        (case append_outcome of
           Raises msg \<Rightarrow>
             s\<lparr>printed := printed s @ [''[ERROR] Failed to blacklist '' @ ip @ '': '' @ msg]\<rparr>
         | Done \<Rightarrow>
             (let s1 = s\<lparr>blacklist_file := blacklist_file s @ ip @ [CHR 0x0A],
                         blacklisted_ips := insert ip (blacklisted_ips s),
                         printed := printed s @
                           [''[BLACKLIST] IP '' @ ip @
                            '' has been added to /etc/suricata/rules/blacklist.txt.'']\<rparr>;
                  s2 = s1\<lparr>reload_runs := reload_runs s1 @ [''sudo suricatasc -c '' @ [CHR 0x27] @ ''reload-rules'' @ [CHR 0x27]]\<rparr>
              in (case reload_outcome of
                    Done \<Rightarrow> s2
                  | Raises msg \<Rightarrow>
                      s2\<lparr>printed := printed s2 @
                           [''[ERROR] Failed to blacklist '' @ ip @ '': '' @ msg]\<rparr>))))"

section \<open>Concrete inputs\<close>

text \<open>
  Stand-ins for the library functions, used where a statement is evaluated on a
  concrete input: a parser that knows three lines of JSON text and the values they
  parse to (every other text is taken as malformed), a serialiser that joins the
  string members of an object, the identity in place of the digest, the ASCII codec
  (bytes below 128 decode to themselves, any other byte raises), and a text layer that
  takes offsets up to \<open>2^40\<close> and raises OSError on any larger value.
\<close>

definition alert_a :: dict where
  "alert_a =
     [(''timestamp'', JStr ''2024-01-01T00:00:00''), (''src_ip'', JStr ''10.0.0.5''),
      (''alert'', JObj [(''signature'', JStr ''scan''), (''severity'', JInt 2)])]"

definition alert_b :: dict where
  "alert_b =
     [(''timestamp'', JStr ''2024-01-01T00:00:01''), (''src_ip'', JStr ''10.0.0.6''),
      (''alert'', JObj [(''signature'', JStr ''flood''), (''severity'', JInt 1)])]"

text \<open>The JSON text of \<open>alert_a\<close>, of \<open>alert_b\<close> and of an event that is no alert.\<close>

definition line_a :: string where
  \<open>line_a = ''{"timestamp": "2024-01-01T00:00:00", "src_ip": "10.0.0.5", "alert": {"signature": "scan", "severity": 2}}''\<close>

definition line_b :: string where
  \<open>line_b = ''{"timestamp": "2024-01-01T00:00:01", "src_ip": "10.0.0.6", "alert": {"signature": "flood", "severity": 1}}''\<close>

definition line_n :: string where
  \<open>line_n = ''{"event_type": "flow"}''\<close>

definition demo_loads :: "string \<Rightarrow> json option" where
  "demo_loads s =
     (if s = line_a then Some (JObj alert_a)
      else if s = line_b then Some (JObj alert_b)
      else if s = line_n then Some (JObj [(''event_type'', JStr ''flow'')])
      else None)"

definition demo_dumps :: "json \<Rightarrow> string" where
  "demo_dumps j =
     (case j of
        JObj d \<Rightarrow> concat (map (\<lambda>(k, v). (case v of JStr s \<Rightarrow> s | _ \<Rightarrow> ''?'') @ '','') d)
      | _ \<Rightarrow> [])"

definition ascii_decode :: "string \<Rightarrow> string option" where
  "ascii_decode bytes =
     (if list_all (\<lambda>c. (of_char c :: nat) < 128) bytes then Some bytes else None)"

definition demo_env :: env where
  "demo_env =
     \<lparr>json_loads = demo_loads, json_dumps_sorted = demo_dumps, md5_hexdigest = (\<lambda>s. s),
      randint = (\<lambda>i. i), now_isoformat = (\<lambda>i. ''T'' @ show_nat i),
      decode = ascii_decode, max_offset = 2 ^ 40, seek_cookie = (\<lambda>n bytes. Inl OSError)\<rparr>"

text \<open>The same libraries at a later time: another clock, other random draws.\<close>

definition later_env :: env where
  "later_env =
     demo_env\<lparr>randint := (\<lambda>i. i + 7), now_isoformat := (\<lambda>i. ''U'' @ show_nat i)\<rparr>"

text \<open>A fresh installation with a given event log: no cursor file, no history file.\<close>

definition fresh_world :: "string \<Rightarrow> world" where
  "fresh_world bytes =
     \<lparr>eve_log = Holds bytes, last_processed = Missing, alerts_db = Missing,
      last_processed_writable = True, alerts_db_writable = True, written = []\<rparr>"



section \<open>Closed forms of the two loops\<close>

text \<open>The value \<^verbatim>\<open>alert['_fingerprint']\<close> of a new alert.\<close>

definition fingerprint_of :: "dict \<Rightarrow> json" where
  "fingerprint_of alert = dict_get alert ''_fingerprint'' JNull"

text \<open>
  What the filtering loop appends to \<^verbatim>\<open>unique_new_alerts\<close>, without the
  accumulator: an alert is kept when its fingerprint has not been seen, in the history
  or earlier in the batch.
\<close>

fun unique_of :: "dict list \<Rightarrow> json set \<Rightarrow> dict list" where
  "unique_of [] seen = []"
| "unique_of (alert # rest) seen =
     (if fingerprint_of alert \<in> seen then unique_of rest seen
      else alert # unique_of rest (insert (fingerprint_of alert) seen))"

text \<open>The fingerprints carried by the records of a history.\<close>

fun stored_fingerprints :: "json list \<Rightarrow> json set" where
  "stored_fingerprints [] = {}"
| "stored_fingerprints (x # rest) =
     (case x of
        JObj d \<Rightarrow>
          (case map_of d ''_fingerprint'' of
             Some f \<Rightarrow> insert f (stored_fingerprints rest)
           | None \<Rightarrow> stored_fingerprints rest)
      | _ \<Rightarrow> stored_fingerprints rest)"

text \<open>Event logs of one, two and three lines.\<close>

definition log_a :: string where
  "log_a = line_a @ [CHR 0x0A]"

definition log_aa :: string where
  "log_aa = line_a @ [CHR 0x0A] @ line_a @ [CHR 0x0A]"

definition log_mixed :: string where
  "log_mixed = line_a @ [CHR 0x0A] @ ''{oops'' @ [CHR 0x0A] @ line_n @ [CHR 0x0A]"

text \<open>
  A world whose history already holds the alert of \<open>line_a\<close>, stored by an earlier
  run, and whose cursor file is gone.
\<close>

definition seen_world :: world where
  "seen_world =
     (fresh_world log_mixed)\<lparr>alerts_db := Holds (JArr [JObj (stamp_alert demo_env 0 alert_a)])\<rparr>"

text \<open>A history at the cap: 10000 records stored before fingerprints were kept.\<close>

definition old_history :: "json list" where
  "old_history = replicate 10000 (JObj [(''event_type'', JStr ''alert'')])"

definition full_world :: world where
  "full_world = (fresh_world log_a)\<lparr>alerts_db := Holds (JArr old_history)\<rparr>"

text \<open>An event log whose first line is new and whose second line is stored already.\<close>

definition log_ba :: string where
  "log_ba = line_b @ [CHR 0x0A] @ line_a @ [CHR 0x0A]"

text \<open>
  Capture files at time 1000 with a maximal age of 10 minutes, so that the cutoff is
  400: one young file, one exactly at the cutoff, one a second older, one file in both
  directories, and one that exists in the saved directory only.
\<close>

definition demo_entry :: "real \<Rightarrow> dir_entry" where
  "demo_entry t = \<lparr>st_mtime = t, stat_raises = False, unlink_raises = False\<rparr>"

definition demo_storage :: storage where
  "demo_storage =
     \<lparr>csv_dir = Some [(''new.csv'', demo_entry 1000), (''edge.csv'', demo_entry 400),
                      (''old.csv'', demo_entry 399), (''both.csv'', demo_entry 900)],
      saved_dir = Some [(''kept.csv'', demo_entry 5), (''both.csv'', demo_entry 900)]\<rparr>"

text \<open>A blacklist that holds one address.\<close>

definition demo_blacklist :: blacklist_state where
  "demo_blacklist =
     \<lparr>blacklisted_ips = {''10.0.0.9''}, blacklist_file = ''10.0.0.9'' @ [CHR 0x0A],
      reload_runs = [], printed = []\<rparr>"

text \<open>
  A history at the cap whose oldest record is the stored alert of \<open>line_a\<close>, and a log
  that holds \<open>line_b\<close>.
\<close>

definition capped_world :: world where
  "capped_world =
     (fresh_world (line_b @ [CHR 0x0A]))
       \<lparr>alerts_db := Holds (JArr (JObj (stamp_alert demo_env 0 alert_a) #
          replicate 9999 (JObj [(''event_type'', JStr ''alert'')])))\<rparr>"

text \<open>
  A cursor file that points past the end of the log, as after the log was rotated; a
  log whose second line holds a byte that no text starts with, and a log of that line
  alone.
\<close>

definition stale_world :: world where
  "stale_world =
     (fresh_world log_a)\<lparr>last_processed := Holds (JObj [(''position'', JInt 1000)])\<rparr>"

definition log_bad :: string where
  "log_bad = line_a @ [CHR 0x0A] @ [CHR 0xFF, CHR 0x0A]"

definition log_ff :: string where
  "log_ff = [CHR 0xFF, CHR 0x0A]"

text \<open>
  A history above the cap, 10001 records, the first of which is the stored alert of
  \<open>line_a\<close>; the log holds \<open>line_a\<close> again.
\<close>

definition over_history :: "json list" where
  "over_history =
     JObj (stamp_alert demo_env 0 alert_a) # replicate 10000 (JObj [(''event_type'', JStr ''alert'')])"

definition over_world :: world where
  "over_world = (fresh_world log_a)\<lparr>alerts_db := Holds (JArr over_history)\<rparr>"

section \<open>Properties\<close>

subsection \<open>Fingerprints\<close>

lemma map_of_dict_set: "map_of (dict_set d k v) = (map_of d)(k \<mapsto> v)"
  by (induction d) (auto simp: fun_eq_iff)






subsection \<open>The cursor file\<close>

lemma load_after_set_position [simp]:
  "load_alert_history (set_last_processed_position n w) = load_alert_history w"
  by (simp add: load_alert_history_def set_last_processed_position_def)

lemma alerts_db_after_set_position [simp]:
  "alerts_db (set_last_processed_position n w) = alerts_db w"
  "alerts_db_writable (set_last_processed_position n w) = alerts_db_writable w"
  "eve_log (set_last_processed_position n w) = eve_log w"
  by (simp_all add: set_last_processed_position_def)

lemma last_processed_after_save [simp]:
  "last_processed (save_alert_history h w) = last_processed w"
  "eve_log (save_alert_history h w) = eve_log w"
  by (simp_all add: save_alert_history_def)

lemma position_after_set:
  "last_processed_writable w \<Longrightarrow>
   last_processed (set_last_processed_position n w) = Holds (JObj [(''position'', JInt (int n))])"
  by (simp add: set_last_processed_position_def)

lemma store_new_alerts_unfold:
  assumes "eve_log w = Holds bytes"
    and "read_from_cursor e (get_last_processed_position w) bytes = Inr (lines, pos)"
  shows "store_new_alerts e w =
     store_batch (read_alerts e 0 lines) (set_last_processed_position pos w)"
  using assms by (simp add: store_new_alerts_def)

lemma store_new_alerts_raised:
  assumes "eve_log w = Holds bytes"
    and "read_from_cursor e (get_last_processed_position w) bytes = Inl err"
  shows "store_new_alerts e w = (0, w)"
  using assms by (simp add: store_new_alerts_def)

lemma read_from_offset:
  assumes "seek_offset c = Inr p" and "int p \<le> max_offset e"
    and "decode e (drop p bytes) = Some text"
  shows "read_from_cursor e c bytes = Inr (file_lines [] text, tell_at_end p bytes)"
  using assms by (simp add: read_from_cursor_def)


subsection \<open>The batch\<close>


lemma store_batch_last_processed [simp]:
  "last_processed (snd (store_batch b w)) = last_processed w"
  by (auto simp: store_batch_def split: json.splits sum.splits if_splits)

subsection \<open>Stamped alerts\<close>

lemma stamp_alert_fingerprint:
  "map_of (stamp_alert e i obj) ''_fingerprint'' =
     Some (JStr (generate_alert_fingerprint e i
       (JObj (dict_set obj ''stored_at'' (JStr (now_isoformat e i))))))"
  by (simp add: stamp_alert_def Let_def map_of_dict_set)

lemma read_alerts_stamped:
  "a \<in> set (read_alerts e i ls) \<Longrightarrow> \<exists>f. map_of a ''_fingerprint'' = Some (JStr f)"
proof (induction ls arbitrary: i)
  case Nil
  then show ?case by simp
next
  case (Cons l ls)
  then show ?case
    by (auto simp: stamp_alert_fingerprint split: option.splits json.splits if_splits)
qed

lemma fingerprint_of_stamped:
  "map_of a ''_fingerprint'' = Some f \<Longrightarrow> fingerprint_of a = f"
  by (simp add: fingerprint_of_def dict_get_def)

subsection \<open>The filtering loop\<close>

lemma filter_duplicates_closed:
  assumes "\<forall>a\<in>set xs. \<exists>f. map_of a ''_fingerprint'' = Some (JStr f)"
  shows "filter_duplicates xs seen uniq = Inr (uniq @ unique_of xs seen)"
  using assms
proof (induction xs arbitrary: seen uniq)
  case Nil
  then show ?case by simp
next
  case (Cons a xs)
  then obtain f where f: "map_of a ''_fingerprint'' = Some (JStr f)" by auto
  then have fo: "fingerprint_of a = JStr f" by (rule fingerprint_of_stamped)
  from Cons have ih: "\<And>seen uniq. filter_duplicates xs seen uniq = Inr (uniq @ unique_of xs seen)"
    by simp
  show ?case
    by (simp add: dict_item_def f fo ih)
qed

lemma unique_of_subset: "set (unique_of xs seen) \<subseteq> set xs"
  by (induction xs arbitrary: seen) auto

lemma unique_of_fresh: "a \<in> set (unique_of xs seen) \<Longrightarrow> fingerprint_of a \<notin> seen"
  by (induction xs arbitrary: seen) (auto split: if_splits)

lemma unique_of_covers:
  "a \<in> set xs \<Longrightarrow> fingerprint_of a \<in> seen \<union> fingerprint_of ` set (unique_of xs seen)"
proof (induction xs arbitrary: seen)
  case Nil
  then show ?case by simp
next
  case (Cons x xs)
  show ?case
  proof (cases "a = x")
    case True
    then show ?thesis by auto
  next
    case False
    with Cons.prems have "a \<in> set xs" by simp
    from Cons.IH [OF this, of seen] Cons.IH [OF this, of "insert (fingerprint_of x) seen"]
    show ?thesis by auto
  qed
qed

lemma unique_of_distinct: "distinct (map fingerprint_of (unique_of xs seen))"
proof (induction xs arbitrary: seen)
  case Nil
  then show ?case by simp
next
  case (Cons x xs)
  have "fingerprint_of x \<notin> fingerprint_of ` set (unique_of xs (insert (fingerprint_of x) seen))"
  proof
    assume "fingerprint_of x \<in> fingerprint_of ` set (unique_of xs (insert (fingerprint_of x) seen))"
    then obtain b where b: "b \<in> set (unique_of xs (insert (fingerprint_of x) seen))"
      and eq: "fingerprint_of x = fingerprint_of b" by auto
    from unique_of_fresh [OF b] eq show False by simp
  qed
  with Cons show ?case by simp
qed

lemma unique_of_empty_iff:
  "unique_of xs seen = [] \<longleftrightarrow> (\<forall>a\<in>set xs. fingerprint_of a \<in> seen)"
  by (induction xs arbitrary: seen) auto

lemma unique_of_all:
  "distinct (map fingerprint_of xs) \<Longrightarrow> \<forall>a\<in>set xs. fingerprint_of a \<notin> seen \<Longrightarrow>
   unique_of xs seen = xs"
proof (induction xs arbitrary: seen)
  case Nil
  then show ?case by simp
next
  case (Cons x xs)
  have "\<forall>a\<in>set xs. fingerprint_of a \<notin> insert (fingerprint_of x) seen"
    using Cons.prems by (auto simp: image_iff)
  moreover have "distinct (map fingerprint_of xs)"
    using Cons.prems by simp
  ultimately have "unique_of xs (insert (fingerprint_of x) seen) = xs"
    by (rule Cons.IH [rotated])
  with Cons.prems show ?case by simp
qed


subsection \<open>The loop over the history\<close>

lemma existing_fingerprints_Inr:
  "existing_fingerprints h seen = Inr S \<Longrightarrow> S = seen \<union> stored_fingerprints h"
proof (induction h arbitrary: seen)
  case Nil
  then show ?case by simp
next
  case (Cons x h)
  show ?case
  proof (cases x)
    case (JObj d)
    with Cons show ?thesis
      by (auto simp: dict_item_def split: option.splits if_splits)
  next
    case (JStr s)
    with Cons show ?thesis by (auto split: if_splits)
  next
    case (JArr xs)
    with Cons show ?thesis by (auto split: if_splits)
  qed (use Cons in auto)
qed

lemma existing_fingerprints_stamped:
  assumes "\<forall>a\<in>set u. \<exists>f. map_of a ''_fingerprint'' = Some (JStr f)"
  shows "existing_fingerprints (map JObj u) seen = Inr (seen \<union> fingerprint_of ` set u)"
  using assms
proof (induction u arbitrary: seen)
  case Nil
  then show ?case by simp
next
  case (Cons a u)
  then obtain f where f: "map_of a ''_fingerprint'' = Some (JStr f)" by auto
  then have fo: "fingerprint_of a = JStr f" by (rule fingerprint_of_stamped)
  from Cons have ih: "\<And>seen. existing_fingerprints (map JObj u) seen =
      Inr (seen \<union> fingerprint_of ` set u)" by simp
  show ?case by (simp add: f fo ih dict_item_def)
qed

lemma existing_fingerprints_append:
  "existing_fingerprints (h @ h') seen =
     (case existing_fingerprints h seen of Inl err \<Rightarrow> Inl err
      | Inr s \<Rightarrow> existing_fingerprints h' s)"
proof (induction h arbitrary: seen)
  case Nil
  then show ?case by simp
next
  case (Cons x h)
  show ?case
    by (cases x) (auto simp: Cons split: sum.splits if_splits)
qed

lemma store_batch_closed:
  assumes "\<forall>a\<in>set b. \<exists>f. map_of a ''_fingerprint'' = Some (JStr f)"
    and "load_alert_history w = JArr h"
    and "existing_fingerprints h {} = Inr S"
  shows "store_batch b w =
     (if unique_of b S = [] then (0, w)
      else (length (unique_of b S),
            save_alert_history (keep_last (h @ map JObj (unique_of b S))) w))"
proof (cases "b = []")
  case True
  then show ?thesis by (simp add: store_batch_def)
next
  case False
  have "filter_duplicates b S [] = Inr (unique_of b S)"
    using filter_duplicates_closed [OF assms(1), of S "[]"] by simp
  with False assms(2,3) show ?thesis
    by (simp add: store_batch_def)
qed

lemma read_batch_closed:
  assumes "load_alert_history w = JArr h" and "existing_fingerprints h {} = Inr S"
  shows "store_batch (read_alerts e i ls) w =
     (if unique_of (read_alerts e i ls) S = [] then (0, w)
      else (length (unique_of (read_alerts e i ls) S),
            save_alert_history (keep_last (h @ map JObj (unique_of (read_alerts e i ls) S))) w))"
  by (rule store_batch_closed [OF _ assms]) (blast dest: read_alerts_stamped)

lemma store_batch_nothing_new:
  assumes "b = [] \<or> (load_alert_history w = JArr h \<and> existing_fingerprints h {} = Inr S \<and>
      (\<forall>a\<in>set b. \<exists>f. map_of a ''_fingerprint'' = Some (JStr f)) \<and>
      (\<forall>a\<in>set b. fingerprint_of a \<in> S))"
  shows "store_batch b w = (0, w)"
proof (cases "b = []")
  case True
  then show ?thesis by (simp add: store_batch_def)
next
  case False
  with assms have h: "load_alert_history w = JArr h" "existing_fingerprints h {} = Inr S"
    "\<forall>a\<in>set b. \<exists>f. map_of a ''_fingerprint'' = Some (JStr f)" "\<forall>a\<in>set b. fingerprint_of a \<in> S"
    by auto
  from h(4) have "unique_of b S = []" by (simp add: unique_of_empty_iff)
  with store_batch_closed [OF h(3) h(1) h(2)] show ?thesis by simp
qed

lemma store_batch_bad_history:
  assumes "\<not> (\<exists>h S. load_alert_history w = JArr h \<and> existing_fingerprints h {} = Inr S)"
  shows "store_batch b w = (0, w)"
  using assms by (auto simp: store_batch_def split: json.splits sum.splits)

lemma seek_after_set:
  "last_processed_writable w \<Longrightarrow>
   seek_offset (get_last_processed_position (set_last_processed_position n w)) = Inr n"
  by (simp add: set_last_processed_position_def get_last_processed_position_def dict_get_def)


lemma keep_last_over:
  "length xs > 10000 \<Longrightarrow> keep_last xs = drop (length xs - 10000) xs \<and> length (keep_last xs) = 10000"
  by (simp add: keep_last_def)

lemma existing_fingerprints_total:
  "existing_fingerprints xs seen = Inr S \<Longrightarrow> \<exists>S'. existing_fingerprints xs seen' = Inr S'"
proof (induction xs arbitrary: seen seen' S)
  case Nil
  then show ?case by simp
next
  case (Cons x xs)
  show ?case
  proof (cases x)
    case (JObj d)
    with Cons.prems Cons.IH show ?thesis
      by (auto simp: dict_item_def split: option.splits if_splits)
  next
    case (JStr s)
    with Cons.prems Cons.IH show ?thesis by (auto split: if_splits)
  next
    case (JArr ys)
    with Cons.prems Cons.IH show ?thesis by (auto split: if_splits)
  qed (use Cons.prems in auto)
qed

lemma existing_fingerprints_tail:
  "existing_fingerprints (x # xs) seen = Inr S \<Longrightarrow> \<exists>seen' S'. existing_fingerprints xs seen' = Inr S'"
  by (cases x) (auto simp: dict_item_def split: option.splits if_splits sum.splits)

lemma existing_fingerprints_drop:
  "existing_fingerprints xs seen = Inr S \<Longrightarrow> \<exists>S'. existing_fingerprints (drop n xs) seen' = Inr S'"
proof (induction xs arbitrary: n seen S)
  case Nil
  then show ?case by simp
next
  case (Cons x xs)
  show ?case
  proof (cases n)
    case 0
    with existing_fingerprints_total [OF Cons.prems] show ?thesis by simp
  next
    case (Suc m)
    from existing_fingerprints_tail [OF Cons.prems] obtain s S0
      where "existing_fingerprints xs s = Inr S0" by blast
    from Cons.IH [OF this] Suc show ?thesis by simp
  qed
qed

lemma existing_fingerprints_keep_last:
  assumes "existing_fingerprints xs {} = Inr S"
  shows "existing_fingerprints (keep_last xs) {} = Inr (stored_fingerprints (keep_last xs))"
proof -
  have "\<exists>S'. existing_fingerprints (keep_last xs) {} = Inr S'"
  proof (cases "length xs > 10000")
    case True
    with existing_fingerprints_drop [OF assms, of "length xs - 10000" "{}"]
    show ?thesis by (simp add: keep_last_def)
  next
    case False
    with assms show ?thesis by (simp add: keep_last_def)
  qed
  then obtain S' where s: "existing_fingerprints (keep_last xs) {} = Inr S'" by blast
  from existing_fingerprints_Inr [OF s] s show ?thesis by simp
qed

text \<open>
  Claim C8, as the code has it. The set used to reject duplicates is built anew in
  every run from the records the stored history retains, and grows by the fingerprints
  accepted in the run: a rejected alert carries a fingerprint of a stored record or of
  an alert accepted earlier in the same batch; an alert whose fingerprint no stored
  record carries (an evicted one, for instance) is stored again; and the next run
  builds its set from the records kept after the cut to 10000.
\<close>

theorem rejection_set_follows_history:
  assumes "existing_fingerprints h {} = Inr S"
    and "batch = read_alerts e i ls"
    and "u = unique_of batch S"
  shows "S = stored_fingerprints h \<and>
    filter_duplicates batch S [] = Inr u \<and>
    (\<forall>a\<in>set batch. a \<notin> set u \<longrightarrow>
       fingerprint_of a \<in> stored_fingerprints h \<union> fingerprint_of ` set u) \<and>
    (\<forall>a\<in>set batch. fingerprint_of a \<notin> stored_fingerprints h \<longrightarrow>
       fingerprint_of a \<in> fingerprint_of ` set u) \<and>
    (\<forall>a\<in>set u. fingerprint_of a \<notin> stored_fingerprints h) \<and>
    existing_fingerprints (keep_last (h @ map JObj u)) {} =
      Inr (stored_fingerprints (keep_last (h @ map JObj u)))"
proof -
  have S: "S = stored_fingerprints h"
    using existing_fingerprints_Inr [OF assms(1)] by simp
  have st: "\<forall>a\<in>set batch. \<exists>f. map_of a ''_fingerprint'' = Some (JStr f)"
    unfolding assms(2) by (blast dest: read_alerts_stamped)
  have fd: "filter_duplicates batch S [] = Inr u"
    using filter_duplicates_closed [OF st, of S "[]"] assms(3) by simp
  have cov: "\<forall>a\<in>set batch. fingerprint_of a \<in> stored_fingerprints h \<union> fingerprint_of ` set u"
    using unique_of_covers [of _ batch S] S assms(3) by blast
  have fresh: "\<forall>a\<in>set u. fingerprint_of a \<notin> stored_fingerprints h"
    using unique_of_fresh [of _ batch S] S assms(3) by blast
  have stu: "\<forall>a\<in>set u. \<exists>f. map_of a ''_fingerprint'' = Some (JStr f)"
    using st unique_of_subset [of batch S] assms(3) by blast
  have "existing_fingerprints (h @ map JObj u) {} = Inr (S \<union> fingerprint_of ` set u)"
    by (simp add: existing_fingerprints_append assms(1) existing_fingerprints_stamped [OF stu])
  then have nxt: "existing_fingerprints (keep_last (h @ map JObj u)) {} =
      Inr (stored_fingerprints (keep_last (h @ map JObj u)))"
    by (rule existing_fingerprints_keep_last)
  from S fd cov fresh nxt show ?thesis by blast
qed

subsection \<open>Reading the same lines again\<close>







lemma load_history_cursor_reset [simp]:
  "load_alert_history (w\<lparr>last_processed := c\<rparr>) = load_alert_history w"
  by (simp add: load_alert_history_def)


lemma existing_fingerprints_old:
  "existing_fingerprints (replicate n (JObj [(''event_type'', JStr ''alert'')])) seen = Inr seen"
  by (induction n) simp_all

theorem rejection_set_follows_history_witness:
  "existing_fingerprints [JObj (stamp_alert demo_env 0 alert_a)] {} =
     Inr {JStr ''2024-01-01T00:00:00,scan,,?,10.0.0.5,,,''} \<and>
   read_alerts later_env 0 (file_lines [] log_ba) =
     [stamp_alert later_env 0 alert_b, stamp_alert later_env 1 alert_a] \<and>
   unique_of [stamp_alert later_env 0 alert_b, stamp_alert later_env 1 alert_a]
     {JStr ''2024-01-01T00:00:00,scan,,?,10.0.0.5,,,''} = [stamp_alert later_env 0 alert_b] \<and>
   stored_fingerprints [JObj (stamp_alert demo_env 0 alert_a)] =
     {JStr ''2024-01-01T00:00:00,scan,,?,10.0.0.5,,,''} \<and>
   filter_duplicates [stamp_alert later_env 0 alert_b, stamp_alert later_env 1 alert_a]
     {JStr ''2024-01-01T00:00:00,scan,,?,10.0.0.5,,,''} [] = Inr [stamp_alert later_env 0 alert_b] \<and>
   existing_fingerprints
     (keep_last ([JObj (stamp_alert demo_env 0 alert_a)] @ map JObj [stamp_alert later_env 0 alert_b])) {} =
     Inr (stored_fingerprints
       (keep_last ([JObj (stamp_alert demo_env 0 alert_a)] @ map JObj [stamp_alert later_env 0 alert_b])))"
proof -
  have h1: "existing_fingerprints [JObj (stamp_alert demo_env 0 alert_a)] {} =
      Inr {JStr ''2024-01-01T00:00:00,scan,,?,10.0.0.5,,,''}"
    by code_simp
  have h2: "[stamp_alert later_env 0 alert_b, stamp_alert later_env 1 alert_a] =
      read_alerts later_env 0 (file_lines [] log_ba)"
    by code_simp
  have h3: "[stamp_alert later_env 0 alert_b] =
      unique_of [stamp_alert later_env 0 alert_b, stamp_alert later_env 1 alert_a]
        {JStr ''2024-01-01T00:00:00,scan,,?,10.0.0.5,,,''}"
    by code_simp
  note t = rejection_set_follows_history [OF h1 h2 h3]
  have c4: "stored_fingerprints [JObj (stamp_alert demo_env 0 alert_a)] =
      {JStr ''2024-01-01T00:00:00,scan,,?,10.0.0.5,,,''}"
    using t by (elim conjE) (rule sym)
  have c5: "filter_duplicates [stamp_alert later_env 0 alert_b, stamp_alert later_env 1 alert_a]
      {JStr ''2024-01-01T00:00:00,scan,,?,10.0.0.5,,,''} [] = Inr [stamp_alert later_env 0 alert_b]"
    using t by (elim conjE)
  have c6: "existing_fingerprints
     (keep_last ([JObj (stamp_alert demo_env 0 alert_a)] @ map JObj [stamp_alert later_env 0 alert_b])) {} =
     Inr (stored_fingerprints
       (keep_last ([JObj (stamp_alert demo_env 0 alert_a)] @ map JObj [stamp_alert later_env 0 alert_b])))"
    using t by (elim conjE)
  show ?thesis
    by (intro conjI h1 h2 [symmetric] h3 [symmetric] c4 c5 c6)
qed

text \<open>
  Claim C8 as stated fails: with an empty stored history and a log of two identical
  alert lines, the second alert is rejected although no record of the stored history
  carries its fingerprint; the fingerprint comes from the first alert of the batch.
\<close>

theorem duplicate_within_batch_rejected:
  "load_alert_history (fresh_world log_aa) = JArr [] \<and>
   existing_fingerprints [] {} = Inr {} \<and>
   stored_fingerprints [] = {} \<and>
   read_alerts demo_env 0 (lines_from 0 log_aa) =
     [stamp_alert demo_env 0 alert_a, stamp_alert demo_env 1 alert_a] \<and>
   filter_duplicates [stamp_alert demo_env 0 alert_a, stamp_alert demo_env 1 alert_a] {} [] =
     Inr [stamp_alert demo_env 0 alert_a] \<and>
   stamp_alert demo_env 1 alert_a \<noteq> stamp_alert demo_env 0 alert_a \<and>
   fingerprint_of (stamp_alert demo_env 1 alert_a) \<notin> stored_fingerprints [] \<and>
   fst (store_new_alerts demo_env (fresh_world log_aa)) = 1"
  by code_simp

subsection \<open>The blacklist\<close>

text \<open>
  Claim C5. Two calls of \<^verbatim>\<open>add_ip_to_blacklist\<close> for an address not yet in the set,
  the first of which appends to the file without an exception: the file has grown by
  exactly one line, the set by exactly that address, the reload has been run once,
  and the second call has done nothing but print the notice, whatever the file and the
  reload would have done.
\<close>

theorem blacklist_add_twice:
  assumes "ip \<notin> blacklisted_ips s"
    and "s1 = add_ip_to_blacklist Done reload1 ip s"
    and "s2 = add_ip_to_blacklist append2 reload2 ip s1"
  shows "blacklist_file s2 = blacklist_file s @ ip @ [CHR 0x0A] \<and>
    blacklisted_ips s2 = insert ip (blacklisted_ips s) \<and>
    reload_runs s2 = reload_runs s @ [''sudo suricatasc -c '' @ [CHR 0x27] @ ''reload-rules'' @ [CHR 0x27]] \<and>
    s2 = s1\<lparr>printed := printed s1 @ [''[BLACKLIST] '' @ ip @ '' already blacklisted.'']\<rparr>"
proof -
  have in1: "ip \<in> blacklisted_ips s1"
    unfolding assms(2) using assms(1)
    by (cases reload1) (simp_all add: add_ip_to_blacklist_def Let_def)
  have f1: "blacklist_file s1 = blacklist_file s @ ip @ [CHR 0x0A]"
    and b1: "blacklisted_ips s1 = insert ip (blacklisted_ips s)"
    and r1: "reload_runs s1 =
      reload_runs s @ [''sudo suricatasc -c '' @ [CHR 0x27] @ ''reload-rules'' @ [CHR 0x27]]"
    unfolding assms(2) using assms(1)
    by (cases reload1; simp add: add_ip_to_blacklist_def Let_def)+
  have s2: "s2 = s1\<lparr>printed := printed s1 @ [''[BLACKLIST] '' @ ip @ '' already blacklisted.'']\<rparr>"
    unfolding assms(3) using in1 by (simp add: add_ip_to_blacklist_def)
  show ?thesis
    using f1 b1 r1 by (simp add: s2)
qed

theorem blacklist_add_twice_witness:
  "''1.2.3.4'' \<notin> blacklisted_ips demo_blacklist \<and>
   blacklist_file (add_ip_to_blacklist Done Done ''1.2.3.4''
     (add_ip_to_blacklist Done (Raises ''timeout'') ''1.2.3.4'' demo_blacklist)) =
     ''10.0.0.9'' @ [CHR 0x0A] @ ''1.2.3.4'' @ [CHR 0x0A] \<and>
   blacklisted_ips (add_ip_to_blacklist Done Done ''1.2.3.4''
     (add_ip_to_blacklist Done (Raises ''timeout'') ''1.2.3.4'' demo_blacklist)) =
     {''1.2.3.4'', ''10.0.0.9''} \<and>
   length (reload_runs (add_ip_to_blacklist Done Done ''1.2.3.4''
     (add_ip_to_blacklist Done (Raises ''timeout'') ''1.2.3.4'' demo_blacklist))) = 1"
proof -
  have h: "''1.2.3.4'' \<notin> blacklisted_ips demo_blacklist"
    by (simp add: demo_blacklist_def)
  let ?s2 = "add_ip_to_blacklist Done Done ''1.2.3.4''
     (add_ip_to_blacklist Done (Raises ''timeout'') ''1.2.3.4'' demo_blacklist)"
  note t = blacklist_add_twice [OF h refl refl, where ?reload1.0 = "Raises ''timeout''"
      and ?append2.0 = Done and ?reload2.0 = Done]
  have a: "blacklist_file ?s2 = blacklist_file demo_blacklist @ ''1.2.3.4'' @ [CHR 0x0A]"
    using t by (elim conjE)
  have b: "blacklisted_ips ?s2 = insert ''1.2.3.4'' (blacklisted_ips demo_blacklist)"
    using t by (elim conjE)
  have c: "reload_runs ?s2 = reload_runs demo_blacklist @
      [''sudo suricatasc -c '' @ [CHR 0x27] @ ''reload-rules'' @ [CHR 0x27]]"
    using t by (elim conjE)
  show ?thesis
    unfolding a b c using h by (simp add: demo_blacklist_def)
qed

subsection \<open>Promoting a capture file\<close>

text \<open>
  Claim C6, as the code has it. For a name present in the saved directory,
  \<^verbatim>\<open>api_save_csv\<close> answers "File already saved" and changes nothing when the
  transient file still exists; when it does not, the check of the source comes first
  and the call fails with 404.
\<close>

theorem save_of_saved_file:
  assumes "path_exists (saved_dir st) name"
  shows "api_save_csv copy_ok name st =
     (if path_exists (csv_dir st) name
      then (Inr \<lparr>message = ''File already saved'', resp_name = name, resp_saved = True\<rparr>, st)
      else (Inl (HTTPException 404 ''File not found''), st))"
  using assms by (simp add: api_save_csv_def)

theorem save_of_saved_file_witness:
  "path_exists (saved_dir demo_storage) ''both.csv'' \<and>
   path_exists (csv_dir demo_storage) ''both.csv'' \<and>
   api_save_csv True ''both.csv'' demo_storage =
     (Inr \<lparr>message = ''File already saved'', resp_name = ''both.csv'', resp_saved = True\<rparr>,
      demo_storage)"
proof -
  have h: "path_exists (saved_dir demo_storage) ''both.csv''"
    by (simp add: demo_storage_def path_exists_def)
  have c: "path_exists (csv_dir demo_storage) ''both.csv''"
    by (simp add: demo_storage_def path_exists_def)
  from save_of_saved_file [OF h, of True] h c show ?thesis by simp
qed

text \<open>
  Claim C6 as stated fails: a file that is saved and whose transient copy is gone
  cannot be promoted again; the call raises 404.
\<close>

theorem save_fails_without_transient_copy:
  "path_exists (saved_dir demo_storage) ''kept.csv'' \<and>
   api_save_csv True ''kept.csv'' demo_storage =
     (Inl (HTTPException 404 ''File not found''), demo_storage)"
  by (simp add: demo_storage_def path_exists_def api_save_csv_def)

subsection \<open>Age of capture files\<close>







text \<open>
  Claim C1, as the code has it. On an existing event log with a cursor file that can
  be written: when the seek or the iteration raises, nothing is written at all.
  Otherwise the offset reached is written to the cursor file first, right after the
  read; the history is written afterwards, at most once, and exactly when the batch
  holds an alert whose fingerprint is new and the history file can be written.
  Between the two writes the cursor is persisted and the batch is not.
\<close>

theorem cursor_saved_before_history:
  assumes "eve_log w = Holds bytes"
    and "last_processed_writable w"
    and "c = get_last_processed_position w"
    and "w' = snd (store_new_alerts e w)"
  shows "(\<forall>err. read_from_cursor e c bytes = Inl err \<longrightarrow> w' = w) \<and>
    (\<forall>lines pos. read_from_cursor e c bytes = Inr (lines, pos) \<longrightarrow>
       (\<exists>rest. written w' = written w @ CursorWritten pos # rest \<and>
          (rest = [] \<or>
           (\<exists>h S. load_alert_history w = JArr h \<and> existing_fingerprints h {} = Inr S \<and>
              unique_of (read_alerts e 0 lines) S \<noteq> [] \<and> alerts_db_writable w \<and>
              rest = [HistoryWritten
                       (keep_last (h @ map JObj (unique_of (read_alerts e 0 lines) S)))] \<and>
              alerts_db w' =
                Holds (JArr (keep_last (h @ map JObj (unique_of (read_alerts e 0 lines) S))))))) \<and>
       (\<forall>h S. load_alert_history w = JArr h \<and> existing_fingerprints h {} = Inr S \<and>
          unique_of (read_alerts e 0 lines) S \<noteq> [] \<and> alerts_db_writable w \<longrightarrow>
          written w' = written w @
            [CursorWritten pos,
             HistoryWritten (keep_last (h @ map JObj (unique_of (read_alerts e 0 lines) S)))]))"
proof (intro conjI allI impI)
  fix err assume "read_from_cursor e c bytes = Inl err"
  then show "w' = w"
    using assms(1,3,4) by (simp add: store_new_alerts_raised)
next
  fix lines pos assume rd: "read_from_cursor e c bytes = Inr (lines, pos)"
  let ?w1 = "set_last_processed_position pos w"
  let ?b = "read_alerts e 0 lines"
  have eq: "store_new_alerts e w = store_batch ?b ?w1"
    using assms(1) rd unfolding assms(3) by (rule store_new_alerts_unfold)
  have w1: "written ?w1 = written w @ [CursorWritten pos]"
    using assms(2) by (simp add: set_last_processed_position_def)
  show "\<exists>rest. written w' = written w @ CursorWritten pos # rest \<and>
          (rest = [] \<or>
           (\<exists>h S. load_alert_history w = JArr h \<and> existing_fingerprints h {} = Inr S \<and>
              unique_of ?b S \<noteq> [] \<and> alerts_db_writable w \<and>
              rest = [HistoryWritten (keep_last (h @ map JObj (unique_of ?b S)))] \<and>
              alerts_db w' = Holds (JArr (keep_last (h @ map JObj (unique_of ?b S))))))"
  proof (cases "\<exists>h S. load_alert_history w = JArr h \<and> existing_fingerprints h {} = Inr S")
    case False
    then have "\<not> (\<exists>h S. load_alert_history ?w1 = JArr h \<and> existing_fingerprints h {} = Inr S)"
      by simp
    then have "store_batch ?b ?w1 = (0, ?w1)" by (rule store_batch_bad_history)
    with eq w1 assms(4) show ?thesis by simp
  next
    case True
    then obtain h S where h: "load_alert_history w = JArr h"
      and S: "existing_fingerprints h {} = Inr S" by blast
    have l1: "load_alert_history ?w1 = JArr h" using h by simp
    note cl = read_batch_closed [OF l1 S, of e 0 lines]
    show ?thesis
    proof (cases "unique_of ?b S \<noteq> [] \<and> alerts_db_writable w")
      case True
      with cl eq w1 assms(4) h S show ?thesis
        by (auto simp: save_alert_history_def)
    next
      case False
      with cl eq w1 assms(4) show ?thesis
        by (auto simp: save_alert_history_def)
    qed
  qed
next
  fix lines pos h S
  assume rd: "read_from_cursor e c bytes = Inr (lines, pos)"
    and hs: "load_alert_history w = JArr h \<and> existing_fingerprints h {} = Inr S \<and>
      unique_of (read_alerts e 0 lines) S \<noteq> [] \<and> alerts_db_writable w"
  let ?w1 = "set_last_processed_position pos w"
  have eq: "store_new_alerts e w = store_batch (read_alerts e 0 lines) ?w1"
    using assms(1) rd unfolding assms(3) by (rule store_new_alerts_unfold)
  have w1: "written ?w1 = written w @ [CursorWritten pos]"
    using assms(2) by (simp add: set_last_processed_position_def)
  have l1: "load_alert_history ?w1 = JArr h" using hs by simp
  from read_batch_closed [OF l1, of S e 0 lines] hs eq w1 assms(4)
  show "written w' = written w @
      [CursorWritten pos,
       HistoryWritten (keep_last (h @ map JObj (unique_of (read_alerts e 0 lines) S)))]"
    by (simp add: save_alert_history_def)
qed

text \<open>
  Claim C10, as the code has it. On an existing event log with a cursor file that
  can be written: when the read succeeds and every alert of the batch carries a
  fingerprint that the stored history already holds (lines that do not parse or have
  no alert give no alert at all), the run returns 0, the history file is left as it
  was and is not written, and the cursor file is set to the offset reached. When the
  seek or the iteration raises, as on a line whose bytes do not decode, the run
  returns 0 and writes neither file: the cursor is not advanced.
\<close>

theorem no_new_alerts_leaves_history:
  assumes "eve_log w = Holds bytes"
    and "last_processed_writable w"
    and "c = get_last_processed_position w"
  shows "(\<forall>err. read_from_cursor e c bytes = Inl err \<longrightarrow> store_new_alerts e w = (0, w)) \<and>
    (\<forall>lines pos h S. read_from_cursor e c bytes = Inr (lines, pos) \<and>
       (read_alerts e 0 lines = [] \<or>
        (load_alert_history w = JArr h \<and> existing_fingerprints h {} = Inr S \<and>
         (\<forall>a\<in>set (read_alerts e 0 lines). fingerprint_of a \<in> S))) \<longrightarrow>
       fst (store_new_alerts e w) = 0 \<and>
       alerts_db (snd (store_new_alerts e w)) = alerts_db w \<and>
       written (snd (store_new_alerts e w)) = written w @ [CursorWritten pos] \<and>
       last_processed (snd (store_new_alerts e w)) = Holds (JObj [(''position'', JInt (int pos))]))"
proof -
  have A: "store_new_alerts e w = (0, w)" if "read_from_cursor e c bytes = Inl err" for err
    using that assms(1,3) by (simp add: store_new_alerts_raised)
  have B: "fst (store_new_alerts e w) = 0 \<and>
       alerts_db (snd (store_new_alerts e w)) = alerts_db w \<and>
       written (snd (store_new_alerts e w)) = written w @ [CursorWritten pos] \<and>
       last_processed (snd (store_new_alerts e w)) = Holds (JObj [(''position'', JInt (int pos))])"
    if a: "read_from_cursor e c bytes = Inr (lines, pos) \<and>
       (read_alerts e 0 lines = [] \<or>
        (load_alert_history w = JArr h \<and> existing_fingerprints h {} = Inr S \<and>
         (\<forall>a\<in>set (read_alerts e 0 lines). fingerprint_of a \<in> S)))"
    for lines pos h S
  proof -
    let ?w1 = "set_last_processed_position pos w"
    let ?b = "read_alerts e 0 lines"
    from a have rd: "read_from_cursor e (get_last_processed_position w) bytes = Inr (lines, pos)"
      unfolding assms(3) by simp
    have eq: "store_new_alerts e w = store_batch ?b ?w1"
      using assms(1) rd by (rule store_new_alerts_unfold)
    have st: "\<forall>a\<in>set ?b. \<exists>f. map_of a ''_fingerprint'' = Some (JStr f)"
      by (blast dest: read_alerts_stamped)
    have "store_batch ?b ?w1 = (0, ?w1)"
      by (rule store_batch_nothing_new [where h = h and S = S]) (use a st in auto)
    with eq have "store_new_alerts e w = (0, ?w1)" by simp
    then show ?thesis
      using assms(2) by (simp add: set_last_processed_position_def)
  qed
  from A B show ?thesis by blast
qed

text \<open>
  Claim C9, as the code has it. On an existing event log with a cursor file that can
  be written: when the seek or the iteration raises, the run writes nothing and the
  cursor stays where it was. When the read succeeds, the cursor file holds what
  \<^verbatim>\<open>f.tell()\<close> gave after the loop, whatever the lines were. For a cursor that is a
  byte offset and bytes that decode, this is the length of the log when the old cursor
  lay inside the log, and the old cursor itself when it lay past the end. In the first
  case a later run on the log grown by \<open>appended\<close> reads the lines of \<open>appended\<close>
  only, so a line that was decoded and passed over is never read again.
\<close>

theorem cursor_follows_read:
  assumes "eve_log w = Holds bytes"
    and "last_processed_writable w"
    and "c = get_last_processed_position w"
    and "w' = snd (store_new_alerts e w)"
  shows "(\<forall>err. read_from_cursor e c bytes = Inl err \<longrightarrow> store_new_alerts e w = (0, w)) \<and>
    (\<forall>lines pos. read_from_cursor e c bytes = Inr (lines, pos) \<longrightarrow>
       last_processed w' = Holds (JObj [(''position'', JInt (int pos))])) \<and>
    (\<forall>p text. seek_offset c = Inr p \<and> int p \<le> max_offset e \<and>
         decode e (drop p bytes) = Some text \<longrightarrow>
       last_processed w' = Holds (JObj [(''position'', JInt (int (max p (length bytes))))]) \<and>
       (length bytes < p \<longrightarrow> last_processed w' = Holds (JObj [(''position'', JInt (int p))])) \<and>
       (p \<le> length bytes \<longrightarrow>
          last_processed w' = Holds (JObj [(''position'', JInt (int (length bytes)))]) \<and>
          (\<forall>e' appended text'. int (length bytes) \<le> max_offset e' \<and>
               decode e' appended = Some text' \<longrightarrow>
             store_new_alerts e' (w'\<lparr>eve_log := Holds (bytes @ appended)\<rparr>) =
               store_batch (read_alerts e' 0 (file_lines [] text'))
                 (set_last_processed_position (length bytes + length appended)
                    (w'\<lparr>eve_log := Holds (bytes @ appended)\<rparr>)))))"
proof -
  have A: "store_new_alerts e w = (0, w)" if "read_from_cursor e c bytes = Inl err" for err
    using that assms(1,3) by (simp add: store_new_alerts_raised)
  have B: "last_processed w' = Holds (JObj [(''position'', JInt (int pos))])"
    if rd: "read_from_cursor e c bytes = Inr (lines, pos)" for lines pos
  proof -
    have "store_new_alerts e w =
        store_batch (read_alerts e 0 lines) (set_last_processed_position pos w)"
      using assms(1) rd unfolding assms(3) by (rule store_new_alerts_unfold)
    then show ?thesis
      unfolding assms(4) using assms(2) by (simp add: position_after_set)
  qed
  have C: "last_processed w' = Holds (JObj [(''position'', JInt (int (max p (length bytes))))]) \<and>
       (length bytes < p \<longrightarrow> last_processed w' = Holds (JObj [(''position'', JInt (int p))])) \<and>
       (p \<le> length bytes \<longrightarrow>
          last_processed w' = Holds (JObj [(''position'', JInt (int (length bytes)))]) \<and>
          (\<forall>e' appended text'. int (length bytes) \<le> max_offset e' \<and>
               decode e' appended = Some text' \<longrightarrow>
             store_new_alerts e' (w'\<lparr>eve_log := Holds (bytes @ appended)\<rparr>) =
               store_batch (read_alerts e' 0 (file_lines [] text'))
                 (set_last_processed_position (length bytes + length appended)
                    (w'\<lparr>eve_log := Holds (bytes @ appended)\<rparr>))))"
    if h: "seek_offset c = Inr p \<and> int p \<le> max_offset e \<and> decode e (drop p bytes) = Some decoded"
    for p decoded
  proof -
    have rd: "read_from_cursor e c bytes = Inr (file_lines [] decoded, tell_at_end p bytes)"
      using h by (intro read_from_offset) simp_all
    have lp: "last_processed w' = Holds (JObj [(''position'', JInt (int (max p (length bytes))))])"
      using B [OF rd] by (simp add: tell_at_end_def)
    have later: "store_new_alerts e' (w'\<lparr>eve_log := Holds (bytes @ appended)\<rparr>) =
               store_batch (read_alerts e' 0 (file_lines [] text'))
                 (set_last_processed_position (length bytes + length appended)
                    (w'\<lparr>eve_log := Holds (bytes @ appended)\<rparr>))"
      if le: "p \<le> length bytes"
        and h': "int (length bytes) \<le> max_offset e' \<and> decode e' appended = Some text'"
      for e' appended text'
    proof -
      let ?w2 = "w'\<lparr>eve_log := Holds (bytes @ appended)\<rparr>"
      have "last_processed ?w2 = Holds (JObj [(''position'', JInt (int (length bytes)))])"
        using lp le by (simp add: max_def)
      then have sk: "seek_offset (get_last_processed_position ?w2) = Inr (length bytes)"
        by (simp add: get_last_processed_position_def dict_get_def)
      have "read_from_cursor e' (get_last_processed_position ?w2) (bytes @ appended) =
          Inr (file_lines [] text', tell_at_end (length bytes) (bytes @ appended))"
        using sk h' by (intro read_from_offset) simp_all
      then have rd2: "read_from_cursor e' (get_last_processed_position ?w2) (bytes @ appended) =
          Inr (file_lines [] text', length bytes + length appended)"
        by (simp add: tell_at_end_def)
      have ev: "eve_log ?w2 = Holds (bytes @ appended)" by simp
      show ?thesis
        using ev rd2 by (rule store_new_alerts_unfold)
    qed
    from lp later show ?thesis by (auto simp: max_def)
  qed
  from A B C show ?thesis by blast
qed

text \<open>
  Claim C3, as the code has it. On a log that is read without an exception, with a
  history file that holds a list the fingerprint loop accepts and that can be written:
  when the run stores at least one alert and the history would grow beyond 10000
  records, the persisted history is the last 10000 records of the old history
  followed by the stored alerts \<open>u\<close>, exactly 10000 records, the oldest dropped
  first; a batch whose fingerprints are pairwise distinct and not in the history is
  stored whole. A run that stores nothing does not write the history file, which
  keeps all its records even when they are more than 10000.
\<close>

theorem retention_cap:
  assumes "eve_log w = Holds bytes"
    and "read_from_cursor e (get_last_processed_position w) bytes = Inr (lines, pos)"
    and "alerts_db_writable w"
    and "load_alert_history w = JArr h"
    and "existing_fingerprints h {} = Inr S"
    and "batch = read_alerts e 0 lines"
    and "u = unique_of batch S"
  shows "(u \<noteq> [] \<and> length h + length u > 10000 \<longrightarrow>
       alerts_db (snd (store_new_alerts e w)) =
         Holds (JArr (drop (length h + length u - 10000) (h @ map JObj u))) \<and>
       length (drop (length h + length u - 10000) (h @ map JObj u)) = 10000 \<and>
       fst (store_new_alerts e w) = length u) \<and>
    (u = [] \<longrightarrow>
       fst (store_new_alerts e w) = 0 \<and> alerts_db (snd (store_new_alerts e w)) = alerts_db w) \<and>
    (distinct (map fingerprint_of batch) \<and> (\<forall>a\<in>set batch. fingerprint_of a \<notin> S) \<longrightarrow> u = batch)"
proof -
  let ?w1 = "set_last_processed_position pos w"
  have eq: "store_new_alerts e w = store_batch batch ?w1"
    unfolding assms(6) using assms(1,2) by (rule store_new_alerts_unfold)
  have l1: "load_alert_history ?w1 = JArr h" using assms(4) by simp
  have cl: "store_batch batch ?w1 =
      (if u = [] then (0, ?w1)
       else (length u, save_alert_history (keep_last (h @ map JObj u)) ?w1))"
    unfolding assms(6,7) by (rule read_batch_closed [OF l1 assms(5)])
  have over: "alerts_db (snd (store_new_alerts e w)) =
         Holds (JArr (drop (length h + length u - 10000) (h @ map JObj u))) \<and>
       length (drop (length h + length u - 10000) (h @ map JObj u)) = 10000 \<and>
       fst (store_new_alerts e w) = length u"
    if h: "u \<noteq> [] \<and> length h + length u > 10000"
  proof -
    have kl: "keep_last (h @ map JObj u) = drop (length h + length u - 10000) (h @ map JObj u)"
      using h keep_last_over [of "h @ map JObj u"] by simp
    have len: "length (drop (length h + length u - 10000) (h @ map JObj u)) = 10000"
      using h by simp
    have res: "store_new_alerts e w =
        (length u, save_alert_history (drop (length h + length u - 10000) (h @ map JObj u)) ?w1)"
      using eq cl h kl by simp
    have "alerts_db (snd (store_new_alerts e w)) =
        Holds (JArr (drop (length h + length u - 10000) (h @ map JObj u)))"
      unfolding res using assms(3) by (simp add: save_alert_history_def)
    with len res show ?thesis by simp
  qed
  have none: "fst (store_new_alerts e w) = 0 \<and> alerts_db (snd (store_new_alerts e w)) = alerts_db w"
    if "u = []"
    using that eq cl by simp
  have all: "u = batch"
    if "distinct (map fingerprint_of batch) \<and> (\<forall>a\<in>set batch. fingerprint_of a \<notin> S)"
    using that unique_of_all [of batch S] assms(7) by simp
  from over none all show ?thesis by blast
qed

lemma store_batch_eve_log [simp]: "eve_log (snd (store_batch b w)) = eve_log w"
  by (auto simp: store_batch_def split: json.splits sum.splits if_splits)



subsection \<open>The statements about the alert history on concrete inputs\<close>

lemma ascii_decode_logs:
  "ascii_decode log_a = Some log_a"
  "ascii_decode log_mixed = Some log_mixed"
  "ascii_decode (line_n @ [CHR 0x0A]) = Some (line_n @ [CHR 0x0A])"
  by code_simp+

lemma demo_read:
  assumes "seek_offset c = Inr p" and "int p \<le> 2 ^ 40" and "ascii_decode (drop p bytes) = Some decoded"
  shows "read_from_cursor demo_env c bytes = Inr (file_lines [] decoded, tell_at_end p bytes)"
    and "read_from_cursor later_env c bytes = Inr (file_lines [] decoded, tell_at_end p bytes)"
  using assms by (simp_all add: read_from_cursor_def demo_env_def later_env_def)

lemma log_lengths:
  "length log_a = 106" "length log_mixed = 135" "length (line_n @ [CHR 0x0A]) = 23"
  by (simp_all add: log_a_def log_mixed_def line_a_def line_n_def)

theorem cursor_saved_before_history_witness:
  "eve_log (fresh_world log_a) = Holds log_a \<and>
   last_processed_writable (fresh_world log_a) \<and>
   read_from_cursor demo_env (get_last_processed_position (fresh_world log_a)) log_a =
     Inr ([log_a], 106) \<and>
   load_alert_history (fresh_world log_a) = JArr [] \<and>
   unique_of (read_alerts demo_env 0 [log_a]) {} = [stamp_alert demo_env 0 alert_a] \<and>
   written (snd (store_new_alerts demo_env (fresh_world log_a))) =
     [CursorWritten 106, HistoryWritten [JObj (stamp_alert demo_env 0 alert_a)]] \<and>
   snd (store_new_alerts demo_env (fresh_world log_ff)) = fresh_world log_ff"
proof -
  have h1: "eve_log (fresh_world bytes) = Holds bytes" for bytes
    by (simp add: fresh_world_def)
  have h2: "last_processed_writable (fresh_world bytes)" for bytes
    by (simp add: fresh_world_def)
  have rd: "read_from_cursor demo_env (get_last_processed_position (fresh_world log_a)) log_a =
      Inr ([log_a], 106)"
    by code_simp
  have bad: "read_from_cursor demo_env (get_last_processed_position (fresh_world log_ff)) log_ff =
      Inl UnicodeDecodeError"
    by code_simp
  have ld: "load_alert_history (fresh_world log_a) = JArr []"
    and wr: "alerts_db_writable (fresh_world log_a)"
    and w0: "written (fresh_world log_a) = []"
    by (simp_all add: fresh_world_def load_alert_history_def)
  have ex: "existing_fingerprints [] {} = Inr {}" by simp
  have u: "unique_of (read_alerts demo_env 0 [log_a]) {} = [stamp_alert demo_env 0 alert_a]"
    by code_simp
  have kl: "keep_last ([] @ map JObj [stamp_alert demo_env 0 alert_a]) =
      [JObj (stamp_alert demo_env 0 alert_a)]"
    by (simp add: keep_last_def)
  note t = cursor_saved_before_history [OF h1 [of log_a] h2 refl refl, where e = demo_env]
  note t2 = cursor_saved_before_history [OF h1 [of log_ff] h2 refl refl, where e = demo_env]
  from t have "\<forall>lines pos. read_from_cursor demo_env
        (get_last_processed_position (fresh_world log_a)) log_a = Inr (lines, pos) \<longrightarrow>
      (\<forall>h S. load_alert_history (fresh_world log_a) = JArr h \<and>
          existing_fingerprints h {} = Inr S \<and>
          unique_of (read_alerts demo_env 0 lines) S \<noteq> [] \<and>
          alerts_db_writable (fresh_world log_a) \<longrightarrow>
          written (snd (store_new_alerts demo_env (fresh_world log_a))) =
            written (fresh_world log_a) @
            [CursorWritten pos,
             HistoryWritten (keep_last (h @ map JObj (unique_of (read_alerts demo_env 0 lines) S)))])"
    by blast
  then have imp: "\<forall>h S. load_alert_history (fresh_world log_a) = JArr h \<and>
          existing_fingerprints h {} = Inr S \<and>
          unique_of (read_alerts demo_env 0 [log_a]) S \<noteq> [] \<and>
          alerts_db_writable (fresh_world log_a) \<longrightarrow>
          written (snd (store_new_alerts demo_env (fresh_world log_a))) =
            written (fresh_world log_a) @
            [CursorWritten 106,
             HistoryWritten (keep_last (h @ map JObj (unique_of (read_alerts demo_env 0 [log_a]) S)))]"
    using rd by blast
  have ne: "unique_of (read_alerts demo_env 0 [log_a]) {} \<noteq> []"
    unfolding u by simp
  have "written (snd (store_new_alerts demo_env (fresh_world log_a))) =
      written (fresh_world log_a) @
        [CursorWritten 106,
         HistoryWritten (keep_last ([] @ map JObj (unique_of (read_alerts demo_env 0 [log_a]) {})))]"
    by (rule imp [rule_format]) (intro conjI ld ex ne wr)
  then have c1: "written (snd (store_new_alerts demo_env (fresh_world log_a))) =
      [CursorWritten 106, HistoryWritten [JObj (stamp_alert demo_env 0 alert_a)]]"
    unfolding u kl w0 by simp
  from t2 bad have c2: "snd (store_new_alerts demo_env (fresh_world log_ff)) = fresh_world log_ff"
    by blast
  show ?thesis
    by (intro conjI h1 h2 rd ld u c1 c2)
qed

text \<open>
  Claim C1 as stated fails: on a fresh installation whose log holds one alert line the
  cursor file is written before the history file, and after the cursor write the
  history file does not exist yet.
\<close>

theorem history_written_after_cursor:
  "fst (store_new_alerts demo_env (fresh_world log_a)) = 1 \<and>
   written (snd (store_new_alerts demo_env (fresh_world log_a))) =
     [CursorWritten 106, HistoryWritten [JObj (stamp_alert demo_env 0 alert_a)]] \<and>
   last_processed (set_last_processed_position 106 (fresh_world log_a)) =
     Holds (JObj [(''position'', JInt 106)]) \<and>
   alerts_db (set_last_processed_position 106 (fresh_world log_a)) = Missing"
  by code_simp

theorem no_new_alerts_leaves_history_witness:
  "eve_log seen_world = Holds log_mixed \<and>
   last_processed_writable seen_world \<and>
   read_from_cursor later_env (get_last_processed_position seen_world) log_mixed =
     Inr (file_lines [] log_mixed, 135) \<and>
   read_alerts later_env 0 (file_lines [] log_mixed) = [stamp_alert later_env 0 alert_a] \<and>
   fingerprint_of (stamp_alert later_env 0 alert_a) \<in>
     {JStr ''2024-01-01T00:00:00,scan,,?,10.0.0.5,,,''} \<and>
   fst (store_new_alerts later_env seen_world) = 0 \<and>
   alerts_db (snd (store_new_alerts later_env seen_world)) = alerts_db seen_world \<and>
   written (snd (store_new_alerts later_env seen_world)) = [CursorWritten 135] \<and>
   last_processed (snd (store_new_alerts later_env seen_world)) =
     Holds (JObj [(''position'', JInt 135)])"
proof -
  let ?S = "{JStr ''2024-01-01T00:00:00,scan,,?,10.0.0.5,,,''}"
  let ?h = "[JObj (stamp_alert demo_env 0 alert_a)]"
  have h1: "eve_log seen_world = Holds log_mixed"
    by (simp add: seen_world_def fresh_world_def)
  have h3: "last_processed_writable seen_world"
    by (simp add: seen_world_def fresh_world_def)
  have sk: "seek_offset (get_last_processed_position seen_world) = Inr 0"
    by (simp add: seen_world_def fresh_world_def get_last_processed_position_def)
  have rd: "read_from_cursor later_env (get_last_processed_position seen_world) log_mixed =
      Inr (file_lines [] log_mixed, 135)"
    using demo_read(2) [OF sk, of log_mixed log_mixed]
    by (simp add: ascii_decode_logs tell_at_end_def log_lengths)
  have h4: "read_alerts later_env 0 (file_lines [] log_mixed) = [stamp_alert later_env 0 alert_a]"
    by code_simp
  have h5: "load_alert_history seen_world = JArr ?h"
    by (simp add: seen_world_def fresh_world_def load_alert_history_def)
  have h6: "existing_fingerprints ?h {} = Inr ?S"
    by code_simp
  have h7: "fingerprint_of (stamp_alert later_env 0 alert_a) \<in> ?S"
    by code_simp
  have w0: "written seen_world = []"
    by (simp add: seen_world_def fresh_world_def)
  note t = no_new_alerts_leaves_history [OF h1 h3 refl, where e = later_env]
  from t have "read_from_cursor later_env (get_last_processed_position seen_world) log_mixed =
        Inr (file_lines [] log_mixed, 135) \<and>
       (read_alerts later_env 0 (file_lines [] log_mixed) = [] \<or>
        (load_alert_history seen_world = JArr ?h \<and> existing_fingerprints ?h {} = Inr ?S \<and>
         (\<forall>a\<in>set (read_alerts later_env 0 (file_lines [] log_mixed)). fingerprint_of a \<in> ?S))) \<longrightarrow>
       fst (store_new_alerts later_env seen_world) = 0 \<and>
       alerts_db (snd (store_new_alerts later_env seen_world)) = alerts_db seen_world \<and>
       written (snd (store_new_alerts later_env seen_world)) = written seen_world @ [CursorWritten 135] \<and>
       last_processed (snd (store_new_alerts later_env seen_world)) =
         Holds (JObj [(''position'', JInt (int 135))])"
    by blast
  moreover have "\<forall>a\<in>set (read_alerts later_env 0 (file_lines [] log_mixed)). fingerprint_of a \<in> ?S"
    unfolding h4 using h7 by simp
  ultimately have "fst (store_new_alerts later_env seen_world) = 0 \<and>
       alerts_db (snd (store_new_alerts later_env seen_world)) = alerts_db seen_world \<and>
       written (snd (store_new_alerts later_env seen_world)) = written seen_world @ [CursorWritten 135] \<and>
       last_processed (snd (store_new_alerts later_env seen_world)) =
         Holds (JObj [(''position'', JInt (int 135))])"
    using rd h5 h6 by blast
  with h1 h3 rd h4 h7 w0 show ?thesis by simp
qed

text \<open>
  Claim C10 as stated fails: the only line of the log holds a byte that does not
  decode. The run returns 0 and leaves the history alone, and it does not advance the
  cursor: no cursor file is written.
\<close>

theorem undecodable_line_keeps_cursor:
  "read_from_cursor demo_env (get_last_processed_position (fresh_world log_ff)) log_ff =
     Inl UnicodeDecodeError \<and>
   fst (store_new_alerts demo_env (fresh_world log_ff)) = 0 \<and>
   alerts_db (snd (store_new_alerts demo_env (fresh_world log_ff))) = Missing \<and>
   last_processed (snd (store_new_alerts demo_env (fresh_world log_ff))) = Missing \<and>
   written (snd (store_new_alerts demo_env (fresh_world log_ff))) = []"
  by code_simp

theorem cursor_follows_read_witness:
  "eve_log (fresh_world log_mixed) = Holds log_mixed \<and>
   last_processed_writable (fresh_world log_mixed) \<and>
   seek_offset (get_last_processed_position (fresh_world log_mixed)) = Inr 0 \<and>
   decode demo_env (drop 0 log_mixed) = Some log_mixed \<and>
   decode later_env log_a = Some log_a \<and>
   last_processed (snd (store_new_alerts demo_env (fresh_world log_mixed))) =
     Holds (JObj [(''position'', JInt 135)]) \<and>
   store_new_alerts later_env
     ((snd (store_new_alerts demo_env (fresh_world log_mixed)))\<lparr>eve_log := Holds (log_mixed @ log_a)\<rparr>) =
     store_batch (read_alerts later_env 0 (file_lines [] log_a))
       (set_last_processed_position 241
         ((snd (store_new_alerts demo_env (fresh_world log_mixed)))\<lparr>eve_log := Holds (log_mixed @ log_a)\<rparr>))"
proof -
  let ?w = "fresh_world log_mixed"
  let ?w' = "snd (store_new_alerts demo_env ?w)"
  have h1: "eve_log ?w = Holds log_mixed"
    by (simp add: fresh_world_def)
  have h2: "last_processed_writable ?w"
    by (simp add: fresh_world_def)
  have sk: "seek_offset (get_last_processed_position ?w) = Inr 0"
    by (simp add: fresh_world_def get_last_processed_position_def)
  have d1: "decode demo_env (drop 0 log_mixed) = Some log_mixed"
    by (simp add: demo_env_def ascii_decode_logs)
  have d2: "decode later_env log_a = Some log_a"
    by (simp add: later_env_def demo_env_def ascii_decode_logs)
  have m: "int 0 \<le> max_offset demo_env" "int (length log_mixed) \<le> max_offset later_env"
    by (simp_all add: later_env_def demo_env_def log_lengths)
  note t = cursor_follows_read [OF h1 h2 refl refl, where e = demo_env]
  from t have "\<forall>p decoded. seek_offset (get_last_processed_position ?w) = Inr p \<and>
         int p \<le> max_offset demo_env \<and> decode demo_env (drop p log_mixed) = Some decoded \<longrightarrow>
       (p \<le> length log_mixed \<longrightarrow>
          last_processed ?w' = Holds (JObj [(''position'', JInt (int (length log_mixed)))]) \<and>
          (\<forall>e' appended text'. int (length log_mixed) \<le> max_offset e' \<and>
               decode e' appended = Some text' \<longrightarrow>
             store_new_alerts e' (?w'\<lparr>eve_log := Holds (log_mixed @ appended)\<rparr>) =
               store_batch (read_alerts e' 0 (file_lines [] text'))
                 (set_last_processed_position (length log_mixed + length appended)
                    (?w'\<lparr>eve_log := Holds (log_mixed @ appended)\<rparr>))))"
    by blast
  from this [rule_format, OF conjI [OF sk conjI [OF m(1) d1]]]
  have c: "last_processed ?w' = Holds (JObj [(''position'', JInt (int (length log_mixed)))])"
    and l: "\<forall>e' appended text'. int (length log_mixed) \<le> max_offset e' \<and>
               decode e' appended = Some text' \<longrightarrow>
             store_new_alerts e' (?w'\<lparr>eve_log := Holds (log_mixed @ appended)\<rparr>) =
               store_batch (read_alerts e' 0 (file_lines [] text'))
                 (set_last_processed_position (length log_mixed + length appended)
                    (?w'\<lparr>eve_log := Holds (log_mixed @ appended)\<rparr>))"
    by simp_all
  have c': "last_processed ?w' = Holds (JObj [(''position'', JInt 135)])"
    using c by (simp add: log_lengths)
  have "store_new_alerts later_env (?w'\<lparr>eve_log := Holds (log_mixed @ log_a)\<rparr>) =
      store_batch (read_alerts later_env 0 (file_lines [] log_a))
        (set_last_processed_position (length log_mixed + length log_a)
           (?w'\<lparr>eve_log := Holds (log_mixed @ log_a)\<rparr>))"
    by (rule l [rule_format]) (intro conjI m(2) d2)
  then have l': "store_new_alerts later_env (?w'\<lparr>eve_log := Holds (log_mixed @ log_a)\<rparr>) =
      store_batch (read_alerts later_env 0 (file_lines [] log_a))
        (set_last_processed_position 241 (?w'\<lparr>eve_log := Holds (log_mixed @ log_a)\<rparr>))"
    by (simp add: log_lengths)
  show ?thesis
    by (intro conjI h1 h2 sk d1 d2 c' l')
qed

text \<open>
  Claim C9 as stated fails. With a cursor file that points past the end of the log,
  the run writes the old cursor back, not the end-of-file offset. With a line whose
  bytes do not decode, the run writes no cursor at all, so that line and the alert line
  before it are read again by every later run.
\<close>

theorem cursor_not_at_end_of_log:
  "length log_a = 106 \<and>
   get_last_processed_position stale_world = JInt 1000 \<and>
   last_processed (snd (store_new_alerts demo_env stale_world)) =
     Holds (JObj [(''position'', JInt 1000)]) \<and>
   store_new_alerts demo_env (fresh_world log_bad) = (0, fresh_world log_bad) \<and>
   last_processed (fresh_world log_bad) = Missing"
  by code_simp

lemma existing_fingerprints_over:
  "existing_fingerprints over_history {} = Inr {JStr ''2024-01-01T00:00:00,scan,,?,10.0.0.5,,,''}"
proof -
  have "map_of (stamp_alert demo_env 0 alert_a) ''_fingerprint'' =
      Some (JStr ''2024-01-01T00:00:00,scan,,?,10.0.0.5,,,'')"
    by code_simp
  then show ?thesis
    by (simp add: over_history_def dict_item_def existing_fingerprints_old)
qed

theorem retention_cap_witness:
  "eve_log full_world = Holds log_a \<and>
   read_from_cursor demo_env (get_last_processed_position full_world) log_a =
     Inr (file_lines [] log_a, 106) \<and>
   alerts_db_writable full_world \<and>
   load_alert_history full_world = JArr old_history \<and>
   existing_fingerprints old_history {} = Inr {} \<and>
   unique_of (read_alerts demo_env 0 (file_lines [] log_a)) {} = [stamp_alert demo_env 0 alert_a] \<and>
   length old_history + length [stamp_alert demo_env 0 alert_a] > 10000 \<and>
   alerts_db (snd (store_new_alerts demo_env full_world)) =
     Holds (JArr (drop 1 (old_history @ [JObj (stamp_alert demo_env 0 alert_a)]))) \<and>
   length (drop 1 (old_history @ [JObj (stamp_alert demo_env 0 alert_a)])) = 10000 \<and>
   fst (store_new_alerts demo_env full_world) = 1"
proof -
  let ?a = "stamp_alert demo_env 0 alert_a"
  have h1: "eve_log full_world = Holds log_a"
    by (simp add: full_world_def fresh_world_def)
  have sk: "seek_offset (get_last_processed_position full_world) = Inr 0"
    by (simp add: full_world_def fresh_world_def get_last_processed_position_def)
  have rd: "read_from_cursor demo_env (get_last_processed_position full_world) log_a =
      Inr (file_lines [] log_a, 106)"
    using demo_read(1) [OF sk, of log_a log_a]
    by (simp add: ascii_decode_logs tell_at_end_def log_lengths)
  have h3: "alerts_db_writable full_world"
    by (simp add: full_world_def fresh_world_def)
  have h4: "load_alert_history full_world = JArr old_history"
    by (simp add: full_world_def fresh_world_def load_alert_history_def)
  have h5: "existing_fingerprints old_history {} = Inr {}"
    unfolding old_history_def by (rule existing_fingerprints_old)
  have u: "unique_of (read_alerts demo_env 0 (file_lines [] log_a)) {} = [?a]"
    by code_simp
  have len: "length old_history = 10000"
    by (simp add: old_history_def)
  then have h9: "length old_history + length [?a] > 10000"
    by simp
  note t = retention_cap [OF h1 rd h3 h4 h5 refl u [symmetric]]
  from t have "[?a] \<noteq> [] \<and> length old_history + length [?a] > 10000 \<longrightarrow>
       alerts_db (snd (store_new_alerts demo_env full_world)) =
         Holds (JArr (drop (length old_history + length [?a] - 10000) (old_history @ map JObj [?a]))) \<and>
       length (drop (length old_history + length [?a] - 10000) (old_history @ map JObj [?a])) = 10000 \<and>
       fst (store_new_alerts demo_env full_world) = length [?a]"
    by (elim conjE)
  with h9 have c: "alerts_db (snd (store_new_alerts demo_env full_world)) =
         Holds (JArr (drop (length old_history + length [?a] - 10000) (old_history @ map JObj [?a]))) \<and>
       length (drop (length old_history + length [?a] - 10000) (old_history @ map JObj [?a])) = 10000 \<and>
       fst (store_new_alerts demo_env full_world) = length [?a]"
    by simp
  have d: "drop (length old_history + length [?a] - 10000) (old_history @ map JObj [?a]) =
      drop 1 (old_history @ [JObj ?a])"
    by (simp add: len)
  from c have c': "alerts_db (snd (store_new_alerts demo_env full_world)) =
       Holds (JArr (drop 1 (old_history @ [JObj ?a]))) \<and>
     length (drop 1 (old_history @ [JObj ?a])) = 10000 \<and>
     fst (store_new_alerts demo_env full_world) = 1"
    unfolding d by simp
  show ?thesis
    using c' by (intro conjI h1 rd h3 h4 h5 u h9) simp_all
qed

text \<open>
  Claim C3 as stated fails: the history file holds 10001 records and the batch holds
  one alert, whose fingerprint the history has already. Nothing is stored, the history
  file is not written, and it keeps its 10001 records. The same happens when the log
  holds no alert at all.
\<close>

theorem over_cap_history_left_untrimmed:
  "length over_history = 10001 \<and>
   load_alert_history over_world = JArr over_history \<and>
   read_alerts demo_env 0 (file_lines [] log_a) = [stamp_alert demo_env 0 alert_a] \<and>
   fst (store_new_alerts demo_env over_world) = 0 \<and>
   alerts_db (snd (store_new_alerts demo_env over_world)) = Holds (JArr over_history) \<and>
   read_alerts demo_env 0 (file_lines [] (line_n @ [CHR 0x0A])) = [] \<and>
   fst (store_new_alerts demo_env (over_world\<lparr>eve_log := Holds (line_n @ [CHR 0x0A])\<rparr>)) = 0 \<and>
   alerts_db (snd (store_new_alerts demo_env (over_world\<lparr>eve_log := Holds (line_n @ [CHR 0x0A])\<rparr>))) =
     Holds (JArr over_history)"
proof -
  let ?S = "{JStr ''2024-01-01T00:00:00,scan,,?,10.0.0.5,,,''}"
  let ?wn = "over_world\<lparr>eve_log := Holds (line_n @ [CHR 0x0A])\<rparr>"
  have len: "length over_history = 10001"
    by (simp add: over_history_def)
  have ld: "load_alert_history over_world = JArr over_history"
    "load_alert_history ?wn = JArr over_history"
    by (simp_all add: over_world_def fresh_world_def load_alert_history_def)
  have db: "alerts_db over_world = Holds (JArr over_history)"
    "alerts_db ?wn = Holds (JArr over_history)"
    by (simp_all add: over_world_def fresh_world_def)
  have ev: "eve_log over_world = Holds log_a" "eve_log ?wn = Holds (line_n @ [CHR 0x0A])"
    by (simp_all add: over_world_def fresh_world_def)
  have sk: "seek_offset (get_last_processed_position over_world) = Inr 0"
    "seek_offset (get_last_processed_position ?wn) = Inr 0"
    by (simp_all add: over_world_def fresh_world_def get_last_processed_position_def)
  have rd1: "read_from_cursor demo_env (get_last_processed_position over_world) log_a =
      Inr (file_lines [] log_a, tell_at_end 0 log_a)"
    by (rule demo_read(1) [OF sk(1)]) (simp_all add: ascii_decode_logs)
  have rd2: "read_from_cursor demo_env (get_last_processed_position ?wn) (line_n @ [CHR 0x0A]) =
      Inr (file_lines [] (line_n @ [CHR 0x0A]), tell_at_end 0 (line_n @ [CHR 0x0A]))"
    by (rule demo_read(1) [OF sk(2)]) (simp_all add: ascii_decode_logs)
  have b1: "read_alerts demo_env 0 (file_lines [] log_a) = [stamp_alert demo_env 0 alert_a]"
    by code_simp
  have b2: "read_alerts demo_env 0 (file_lines [] (line_n @ [CHR 0x0A])) = []"
    by code_simp
  have f: "fingerprint_of (stamp_alert demo_env 0 alert_a) \<in> ?S"
    by code_simp
  have st: "\<exists>f. map_of (stamp_alert demo_env 0 alert_a) ''_fingerprint'' = Some (JStr f)"
    by (simp add: stamp_alert_fingerprint)
  let ?w1 = "set_last_processed_position (tell_at_end 0 log_a) over_world"
  let ?w2 = "set_last_processed_position (tell_at_end 0 (line_n @ [CHR 0x0A])) ?wn"
  have "store_batch [stamp_alert demo_env 0 alert_a] ?w1 = (0, ?w1)"
    by (rule store_batch_nothing_new [where h = over_history and S = ?S])
      (use ld(1) existing_fingerprints_over f st in simp)
  then have r1: "store_new_alerts demo_env over_world = (0, ?w1)"
    unfolding store_new_alerts_unfold [OF ev(1) rd1] b1 .
  have "store_batch [] ?w2 = (0, ?w2)"
    by (simp add: store_batch_def)
  then have r2: "store_new_alerts demo_env ?wn = (0, ?w2)"
    unfolding store_new_alerts_unfold [OF ev(2) rd2] b2 .
  have c1: "fst (store_new_alerts demo_env over_world) = 0"
    and c2: "alerts_db (snd (store_new_alerts demo_env over_world)) = Holds (JArr over_history)"
    unfolding r1 using db(1) by simp_all
  have c3: "fst (store_new_alerts demo_env ?wn) = 0"
    and c4: "alerts_db (snd (store_new_alerts demo_env ?wn)) = Holds (JArr over_history)"
    unfolding r2 using db(2) by simp_all
  show ?thesis
    by (intro conjI len ld(1) b1 c1 c2 b2 c3 c4)
qed


subsection \<open>Eviction and the rejection set\<close>

text \<open>
  Eviction at work: the history is at the cap and its oldest record is the alert of
  \<open>line_a\<close>. Storing the alert of \<open>line_b\<close> evicts it; when \<open>line_a\<close> is
  appended to the log afterwards, its alert is stored again.
\<close>

lemma evicted_alert_stored_again:
  "fst (store_new_alerts demo_env capped_world) = 1 \<and>
   alerts_db (snd (store_new_alerts demo_env capped_world)) =
     Holds (JArr (replicate 9999 (JObj [(''event_type'', JStr ''alert'')]) @
       [JObj (stamp_alert demo_env 0 alert_b)])) \<and>
   store_new_alerts later_env
     ((snd (store_new_alerts demo_env capped_world))\<lparr>eve_log := Holds (line_b @ [CHR 0x0A] @ log_a)\<rparr>) =
     (1, save_alert_history
           (replicate 9998 (JObj [(''event_type'', JStr ''alert'')]) @
             [JObj (stamp_alert demo_env 0 alert_b), JObj (stamp_alert later_env 0 alert_a)])
           (set_last_processed_position 213
             ((snd (store_new_alerts demo_env capped_world))\<lparr>eve_log := Holds (line_b @ [CHR 0x0A] @ log_a)\<rparr>)))"
proof -
  let ?old = "JObj [(''event_type'', JStr ''alert'')]"
  let ?a0 = "stamp_alert demo_env 0 alert_a"
  let ?b0 = "stamp_alert demo_env 0 alert_b"
  let ?a1 = "stamp_alert later_env 0 alert_a"
  let ?fa = "JStr ''2024-01-01T00:00:00,scan,,?,10.0.0.5,,,''"
  let ?fb = "JStr ''2024-01-01T00:00:01,flood,,?,10.0.0.6,,,''"
  let ?h = "JObj ?a0 # replicate 9999 ?old"
  let ?lb = "line_b @ [CHR 0x0A]"
  let ?lba = "line_b @ [CHR 0x0A] @ log_a"
  have fa: "map_of ?a0 ''_fingerprint'' = Some ?fa" "fingerprint_of ?a1 = ?fa"
    and fb: "fingerprint_of ?b0 = ?fb" "map_of ?b0 ''_fingerprint'' = Some ?fb"
    by code_simp+
  have ev: "eve_log capped_world = Holds ?lb"
    and sk: "seek_offset (get_last_processed_position capped_world) = Inr 0"
    and ld: "load_alert_history capped_world = JArr ?h"
    and wr: "alerts_db_writable capped_world" "last_processed_writable capped_world"
    by (simp_all add: capped_world_def fresh_world_def get_last_processed_position_def
        load_alert_history_def)
  have dec: "ascii_decode ?lb = Some ?lb" "ascii_decode (drop 107 ?lba) = Some log_a"
    by code_simp+
  have t1: "tell_at_end 0 ?lb = 107"
    by (simp add: tell_at_end_def line_b_def)
  have t2: "tell_at_end 107 ?lba = 213"
    by (simp add: tell_at_end_def line_b_def log_a_def line_a_def)
  have rd1: "read_from_cursor demo_env (get_last_processed_position capped_world) ?lb =
      Inr (file_lines [] ?lb, 107)"
    using demo_read(1) [OF sk, of ?lb ?lb] dec(1) t1 by simp
  have b1: "read_alerts demo_env 0 (file_lines [] ?lb) = [?b0]"
    by code_simp
  have e1: "existing_fingerprints ?h {} = Inr {?fa}"
    by (simp add: fa dict_item_def existing_fingerprints_old)
  let ?w1 = "set_last_processed_position 107 capped_world"
  have u1: "unique_of [?b0] {?fa} = [?b0]"
    by (simp add: fb)
  have k1: "keep_last (?h @ map JObj [?b0]) = replicate 9999 ?old @ [JObj ?b0]"
    by (simp add: keep_last_def)
  have l1: "load_alert_history ?w1 = JArr ?h"
    by (simp add: ld)
  have sb1: "store_batch [?b0] ?w1 = (1, save_alert_history (replicate 9999 ?old @ [JObj ?b0]) ?w1)"
    using read_batch_closed [OF l1 e1, of demo_env 0 "file_lines [] ?lb"]
    unfolding b1 u1 k1 by simp
  have run1: "store_new_alerts demo_env capped_world =
      (1, save_alert_history (replicate 9999 ?old @ [JObj ?b0]) ?w1)"
    unfolding store_new_alerts_unfold [OF ev rd1] b1 by (rule sb1)
  let ?w = "snd (store_new_alerts demo_env capped_world)"
  let ?w2 = "?w\<lparr>eve_log := Holds ?lba\<rparr>"
  have db: "alerts_db ?w = Holds (JArr (replicate 9999 ?old @ [JObj ?b0]))"
    unfolding run1 using wr by (simp add: save_alert_history_def)
  have ev2: "eve_log ?w2 = Holds ?lba" by simp
  have "last_processed ?w2 = Holds (JObj [(''position'', JInt 107)])"
    unfolding run1 using wr by (simp add: save_alert_history_def set_last_processed_position_def)
  then have sk2: "seek_offset (get_last_processed_position ?w2) = Inr 107"
    by (simp add: get_last_processed_position_def dict_get_def)
  have rd2: "read_from_cursor later_env (get_last_processed_position ?w2) ?lba =
      Inr (file_lines [] log_a, 213)"
    using demo_read(2) [OF sk2, of ?lba log_a] dec(2) t2 by simp
  have ld2: "load_alert_history ?w2 = JArr (replicate 9999 ?old @ [JObj ?b0])"
    using db by (simp add: load_alert_history_def)
  have e2: "existing_fingerprints (replicate 9999 ?old @ [JObj ?b0]) {} = Inr {?fb}"
    by (simp add: existing_fingerprints_append existing_fingerprints_old fb dict_item_def)
  have b2: "read_alerts later_env 0 (file_lines [] log_a) = [?a1]"
    by code_simp
  have u2: "unique_of [?a1] {?fb} = [?a1]"
    by (simp add: fa)
  have "replicate 9999 ?old = ?old # replicate 9998 ?old"
    by (simp add: replicate_Suc [symmetric] del: replicate_Suc)
  then have k2: "keep_last ((replicate 9999 ?old @ [JObj ?b0]) @ map JObj [?a1]) =
      replicate 9998 ?old @ [JObj ?b0, JObj ?a1]"
    by (simp add: keep_last_def)
  let ?w3 = "set_last_processed_position 213 ?w2"
  have l3: "load_alert_history ?w3 = JArr (replicate 9999 ?old @ [JObj ?b0])"
    using ld2 by simp
  have sb2: "store_batch [?a1] ?w3 =
      (1, save_alert_history (replicate 9998 ?old @ [JObj ?b0, JObj ?a1]) ?w3)"
    using read_batch_closed [OF l3 e2, of later_env 0 "file_lines [] log_a"]
    unfolding b2 u2 k2 by simp
  have run2: "store_new_alerts later_env ?w2 =
      (1, save_alert_history (replicate 9998 ?old @ [JObj ?b0, JObj ?a1]) ?w3)"
    unfolding store_new_alerts_unfold [OF ev2 rd2] b2 by (rule sb2)
  have n1: "fst (store_new_alerts demo_env capped_world) = 1"
    by (simp add: run1)
  show ?thesis
    by (intro conjI n1 db run2)
qed

end
